theory Spec2Isabelle
  imports Complex_Main "HOL-Library.Word" "HOL-Library.Sublist"
begin

section \<open>Strings\<close>

text \<open>
  A JavaScript string is a sequence of UTF-16 code units: \<open>substring\<close>, \<open>trim\<close> and a
  regular expression without the \<open>u\<close> flag all work on code units. A string is therefore a
  list of 16-bit words, and \<open>js\<close> turns an ASCII literal into one.
\<close>

type_synonym jsstring = "16 word list"

definition js :: "string \<Rightarrow> jsstring" where
  "js s = map of_char s"

text \<open>
  \<open>if (x)\<close> and \<open>x || d\<close> on an optional string: \<open>undefined\<close>, \<open>null\<close> and the empty
  string are falsy.
\<close>

definition truthy :: "jsstring option \<Rightarrow> bool" where
  "truthy x = (case x of None \<Rightarrow> False | Some v \<Rightarrow> v \<noteq> [])"

definition or_else :: "jsstring option \<Rightarrow> jsstring \<Rightarrow> jsstring" where
  "or_else x d = (case x of None \<Rightarrow> d | Some v \<Rightarrow> if v = [] then d else v)"

text \<open>
  The code units matched by \<open>\s\<close> in a regular expression, which are also the ones that
  \<open>String.prototype.trim\<close> strips: ECMAScript's WhiteSpace and LineTerminator.
\<close>

definition isWhiteSpace :: "16 word \<Rightarrow> bool" where
  "isWhiteSpace c =
     ((0x09 \<le> c \<and> c \<le> 0x0D) \<or> c = 0x20 \<or> c = 0xA0 \<or> c = 0x1680 \<or>
      (0x2000 \<le> c \<and> c \<le> 0x200A) \<or> c = 0x2028 \<or> c = 0x2029 \<or> c = 0x202F \<or>
      c = 0x205F \<or> c = 0x3000 \<or> c = 0xFEFF)"

definition trim :: "jsstring \<Rightarrow> jsstring" where
  "trim s = rev (dropWhile isWhiteSpace (rev (dropWhile isWhiteSpace s)))"

definition substring0 :: "nat \<Rightarrow> jsstring \<Rightarrow> jsstring" where
  \<comment> \<open>\<open>s.substring(0, n)\<close>\<close>
  "substring0 n s = take n s"

section \<open>Status helpers\<close>

text \<open>
  \<open>TatraPayStatus\<close> is a union of string literals that exists at compile time only:
  \<open>getPaymentStatus\<close> casts whatever string the gateway sent. A status is a string.
\<close>

type_synonym TatraPayStatus = jsstring

datatype internal_status = pending | completed | failed

definition successCodes :: "TatraPayStatus list" where
  "successCodes = map js [''ACCC'', ''ACSC'', ''ACSP'', ''ACCP'', ''ACTC'', ''ACWC'', ''ACWP'', ''ACFC'']"

definition failedCodes :: "TatraPayStatus list" where
  "failedCodes = map js [''RJCT'', ''CANC'']"

definition pendingCodes :: "TatraPayStatus list" where
  "pendingCodes = map js [''RCVD'', ''PDNG'', ''PATC'', ''PART'']"

definition isPaymentSuccessful :: "TatraPayStatus \<Rightarrow> bool" where
  "isPaymentSuccessful status = (status \<in> set successCodes)"

definition isPaymentFailed :: "TatraPayStatus \<Rightarrow> bool" where
  "isPaymentFailed status = (status \<in> set failedCodes)"

definition isPaymentPending :: "TatraPayStatus \<Rightarrow> bool" where
  "isPaymentPending status = (status \<in> set pendingCodes)"

definition mapToInternalStatus :: "TatraPayStatus \<Rightarrow> internal_status" where
  "mapToInternalStatus status =
     (if isPaymentSuccessful status then completed
      else if isPaymentFailed status then failed
      else pending)"

section \<open>Configuration and credentials\<close>

record api_config =
  baseUrl :: jsstring
  tokenUrl :: jsstring

definition TATRAPAY_CONFIG :: "bool \<Rightarrow> api_config" where
  \<comment> \<open>the table's two keys: \<open>True\<close> selects \<open>sandbox\<close>, \<open>False\<close> selects \<open>production\<close>\<close>
  "TATRAPAY_CONFIG sandbox =
     (if sandbox
      then \<lparr>baseUrl = js ''https://api.tatrabanka.sk/tatrapayplus/sandbox'',
            tokenUrl = js ''https://api.tatrabanka.sk/tatrapayplus/sandbox/auth/oauth/v2/token''\<rparr>
      else \<lparr>baseUrl = js ''https://api.tatrabanka.sk/tatrapayplus/production'',
            tokenUrl = js ''https://api.tatrabanka.sk/tatrapayplus/production/auth/oauth/v2/token''\<rparr>)"

text \<open>The variables of \<open>process.env\<close> that the code reads; an unset variable is \<open>None\<close>.\<close>

record environment =
  TATRAPAY_CLIENT_ID :: "jsstring option"
  TATRAPAY_CLIENT_SECRET :: "jsstring option"
  TATRAPAY_SANDBOX :: "jsstring option"
  NEXT_PUBLIC_BASE_URL :: "jsstring option"

record TatraPayCredentials =
  clientId :: jsstring
  clientSecret :: jsstring
  isSandbox :: bool

text \<open>
  Exceptions are values. \<open>Error m\<close> is \<open>new Error(m)\<close>, thrown by the client with the
  message \<open>m\<close>; the other two are raised by the platform: \<open>fetch\<close> rejects when the
  network fails, and \<open>response.json()\<close> throws when the body is not JSON.
\<close>

datatype error = Error jsstring | FetchFailed | JsonSyntaxError

function decimal :: "nat \<Rightarrow> jsstring" where
  \<comment> \<open>a non-negative integer in a template literal: its decimal digits\<close>
  "decimal n = (if n < 10 then [0x30 + of_nat n]
                else decimal (n div 10) @ [0x30 + of_nat (n mod 10)])"
  by pat_completeness auto
termination
  by (relation "measure id") auto

declare decimal.simps [simp del]

definition getCredentials :: "environment \<Rightarrow> error + TatraPayCredentials" where
  "getCredentials e =
     (case (TATRAPAY_CLIENT_ID e, TATRAPAY_CLIENT_SECRET e) of
        (Some cid, Some secret) \<Rightarrow>
          if cid = [] \<or> secret = []
          then Inl (Error (js ''TatraPay credentials not configured. Set TATRAPAY_CLIENT_ID and TATRAPAY_CLIENT_SECRET.''))
          else Inr \<lparr>clientId = cid, clientSecret = secret,
                    isSandbox = (TATRAPAY_SANDBOX e \<noteq> Some (js ''false''))\<rparr>
      | _ \<Rightarrow> Inl (Error (js ''TatraPay credentials not configured. Set TATRAPAY_CLIENT_ID and TATRAPAY_CLIENT_SECRET.'')))"

definition getConfig :: "environment \<Rightarrow> error + api_config" where
  "getConfig e =
     (case getCredentials e of
        Inl err \<Rightarrow> Inl err
      | Inr credentials \<Rightarrow> Inr (TATRAPAY_CONFIG (isSandbox credentials)))"

section \<open>Requests, responses and the state of the process\<close>

datatype TatraPayMethod = CARD_PAY | BANK_TRANSFER | QR_PAY | PAY_LATER

definition method_name :: "TatraPayMethod \<Rightarrow> jsstring" where
  "method_name m = (case m of CARD_PAY \<Rightarrow> js ''CARD_PAY'' | BANK_TRANSFER \<Rightarrow> js ''BANK_TRANSFER''
                    | QR_PAY \<Rightarrow> js ''QR_PAY'' | PAY_LATER \<Rightarrow> js ''PAY_LATER'')"

datatype currency = EUR | CZK

datatype language = sk | cs | en

record base_amount =
  amountValue :: int
  ba_currency :: currency

record user_data =
  ud_firstName :: jsstring
  ud_lastName :: jsstring
  ud_email :: jsstring
  ud_phone :: "jsstring option"

record card_detail =
  cardHolder :: jsstring

text \<open>
  The object \<open>apiBody\<close> that \<open>createPayment\<close> fills in; a key that is never set is
  \<open>None\<close>. \<open>bankTransfer\<close> is the empty object when present.
\<close>

record api_body =
  baseAmount :: base_amount
  api_merchantReference :: jsstring
  api_language :: language
  paymentDescription :: "jsstring option"
  userData :: "user_data option"
  cardDetail :: "card_detail option"
  bankTransfer :: "unit option"

datatype http_method = M_GET | M_POST | M_PUT | M_DELETE

datatype request_body =
    FormBody "(jsstring \<times> jsstring) list"  \<comment> \<open>\<open>new URLSearchParams({...})\<close>\<close>
  | JsonBody api_body  \<comment> \<open>\<open>JSON.stringify(body)\<close>\<close>

record http_request =
  req_method :: http_method
  req_url :: jsstring
  req_headers :: "(jsstring \<times> jsstring) list"
  req_body :: "request_body option"

text \<open>
  What \<open>fetch\<close> resolves to. \<open>resp_json\<close> is the body parsed as JSON and read at the type
  the caller declares for it, \<open>None\<close> when the body is not JSON; \<open>resp_stringified\<close> is
  \<open>JSON.stringify\<close> of that parsed value; \<open>resp_elapsed\<close> is the time in milliseconds that
  passed between the call and the response.
\<close>

record 'a http_response =
  resp_status :: nat
  resp_text :: jsstring
  resp_json :: "'a option"
  resp_stringified :: jsstring
  resp_elapsed :: nat

definition resp_ok :: "'a http_response \<Rightarrow> bool" where
  \<comment> \<open>\<open>response.ok\<close>\<close>
  "resp_ok r = (200 \<le> resp_status r \<and> resp_status r \<le> 299)"

record token_data =
  access_token :: jsstring
  token_type :: jsstring
  expires_in :: int
  scope :: jsstring

record TatraPayToken = token_data +
  expiresAt :: int

record bank_transfer_data =
  iban :: jsstring
  bic :: jsstring
  variableSymbol :: jsstring

record available_method =
  isAvailable :: bool
  am_paymentMethod :: jsstring
  reasonCodeMethodAvailability :: "jsstring option"
  reasonCodeMethodAvailabilityDescription :: "jsstring option"

text \<open>The body of the gateway's answer to \<open>POST /v1/payments\<close>, as \<open>createPayment\<close> declares it.\<close>

record creation_data =
  cd_paymentId :: jsstring
  tatraPayPlusUrl :: "jsstring option"
  bankTransferData :: "bank_transfer_data option"
  availablePaymentMethods :: "available_method list option"

record status_amount =
  sa_amount :: rat
  sa_currency :: jsstring

text \<open>The body of the gateway's answer to the status request, as \<open>getPaymentStatus\<close> declares it.\<close>

record status_data =
  sd_paymentId :: jsstring
  sd_status :: jsstring
  sd_merchantReference :: jsstring
  instructedAmount :: status_amount
  sd_paidAmount :: "status_amount option"
  sd_paymentMethod :: jsstring
  sd_createdAt :: jsstring
  sd_updatedAt :: jsstring
  sd_transactionId :: "jsstring option"

text \<open>
  The lines written with \<open>console.error\<close>, each with its arguments. The informational
  \<open>console.log\<close> lines are not recorded.
\<close>

datatype console_entry =
    TokenRequestFailed nat jsstring  \<comment> \<open>status and body text of the token endpoint's answer\<close>
  | InvalidJsonResponse jsstring
  | ApiErrorLogged nat jsstring
  | NoPaymentIdFound jsstring
  | CallbackError error

text \<open>
  The mutable state of the process: the wall clock in milliseconds (\<open>Date.now()\<close>), the
  module variable \<open>cachedToken\<close>, the requests handed to \<open>fetch\<close> so far, the error console
  and the number of UUIDs drawn.
\<close>

record state =
  clock :: int
  cachedToken :: "TatraPayToken option"
  sent :: "http_request list"
  console_error :: "console_entry list"
  uuids :: nat

text \<open>
  What the process runs against: its environment variables, the source of
  \<open>crypto.randomUUID()\<close>, and the gateway, which answers a request made at a given time or
  lets \<open>fetch\<close> fail (\<open>None\<close>).
\<close>

record platform =
  env :: environment
  randomUUID :: "nat \<Rightarrow> jsstring"
  tokenEndpoint :: "int \<Rightarrow> http_request \<Rightarrow> token_data http_response option"
  paymentsEndpoint :: "int \<Rightarrow> http_request \<Rightarrow> creation_data http_response option"
  statusEndpoint :: "int \<Rightarrow> http_request \<Rightarrow> status_data http_response option"

definition requests_made :: "state \<Rightarrow> state \<Rightarrow> http_request list" where
  \<comment> \<open>the requests handed to \<open>fetch\<close> on the way from the first state to the second\<close>
  "requests_made s s' = drop (length (sent s)) (sent s')"

section \<open>Authentication\<close>

definition tokenRequest :: "TatraPayCredentials \<Rightarrow> api_config \<Rightarrow> http_request" where
  "tokenRequest credentials config =
     \<lparr>req_method = M_POST,
      req_url = tokenUrl config,
      req_headers = [(js ''Content-Type'', js ''application/x-www-form-urlencoded'')],
      req_body = Some (FormBody
        [(js ''grant_type'', js ''client_credentials''),
         (js ''client_id'', clientId credentials),
         (js ''client_secret'', clientSecret credentials),
         (js ''scope'', js ''TATRAPAYPLUS'')])\<rparr>"

definition token_valid :: "state \<Rightarrow> bool" where
  \<comment> \<open>\<open>cachedToken && Date.now() < cachedToken.expiresAt - 60000\<close>\<close>
  "token_valid s =
     (case cachedToken s of None \<Rightarrow> False | Some t \<Rightarrow> clock s < expiresAt t - 60000)"

definition getAccessToken :: "platform \<Rightarrow> state \<Rightarrow> (error + jsstring) \<times> state" where
  "getAccessToken p s =
     (case (if token_valid s then cachedToken s else None) of
        Some t \<Rightarrow> (Inr (access_token t), s)
      | None \<Rightarrow>
         (case getCredentials (env p) of
            Inl err \<Rightarrow> (Inl err, s)
          | Inr credentials \<Rightarrow>
             (case getConfig (env p) of
                Inl err \<Rightarrow> (Inl err, s)
              | Inr config \<Rightarrow>
                 (let q = tokenRequest credentials config;
                      s1 = s\<lparr>sent := sent s @ [q]\<rparr>
                  in case tokenEndpoint p (clock s1) q of
                       None \<Rightarrow> (Inl FetchFailed, s1)
                     | Some response \<Rightarrow>
                        (let s2 = s1\<lparr>clock := clock s1 + int (resp_elapsed response)\<rparr>
                         in if \<not> resp_ok response
                            then (Inl (Error (js ''TatraPay authentication failed: '' @
                                               decimal (resp_status response))),
                                  s2\<lparr>console_error := console_error s2 @
                                       [TokenRequestFailed (resp_status response) (resp_text response)]\<rparr>)
                            else (case resp_json response of
                                    None \<Rightarrow> (Inl JsonSyntaxError, s2)
                                  | Some tokenData \<Rightarrow>
                                     (Inr (access_token tokenData),
                                      s2\<lparr>cachedToken := Some
                                           \<lparr>access_token = access_token tokenData,
                                            token_type = token_type tokenData,
                                            expires_in = expires_in tokenData,
                                            scope = scope tokenData,
                                            expiresAt = clock s2 + expires_in tokenData * 1000\<rparr>\<rparr>)))))))"

section \<open>Authenticated requests\<close>

definition optional_header :: "jsstring \<Rightarrow> jsstring option \<Rightarrow> (jsstring \<times> jsstring) list" where
  \<comment> \<open>\<open>if (v) { headers[name] = v }\<close>\<close>
  "optional_header name v =
     (case v of None \<Rightarrow> [] | Some x \<Rightarrow> if x = [] then [] else [(name, x)])"

text \<open>
  \<open>apiRequest<T>\<close> is generic in the type of the answer; \<open>fetch_at\<close> is the endpoint of the
  gateway that answers the request with a body of that type.
\<close>

definition apiRequest ::
  "platform \<Rightarrow> (int \<Rightarrow> http_request \<Rightarrow> 'a http_response option) \<Rightarrow> http_method \<Rightarrow> jsstring \<Rightarrow>
   api_body option \<Rightarrow> jsstring option \<Rightarrow> jsstring option \<Rightarrow> TatraPayMethod option \<Rightarrow>
   state \<Rightarrow> (error + 'a) \<times> state" where
  "apiRequest p fetch_at method endpoint body customerIp redirectUri preferredMethod s =
     (case getAccessToken p s of
        (Inl err, s1) \<Rightarrow> (Inl err, s1)
      | (Inr token, s1) \<Rightarrow>
         (case getConfig (env p) of
            Inl err \<Rightarrow> (Inl err, s1)
          | Inr config \<Rightarrow>
             (let url = baseUrl config @ endpoint;
                  headers =
                    [(js ''Authorization'', js ''Bearer '' @ token),
                     (js ''Content-Type'', js ''application/json''),
                     (js ''X-Request-ID'', randomUUID p (uuids s1))] @
                    optional_header (js ''IP-Address'') customerIp @
                    optional_header (js ''Redirect-URI'') redirectUri @
                    (case preferredMethod of None \<Rightarrow> []
                     | Some m \<Rightarrow> [(js ''Preferred-Method'', method_name m)]);
                  q = \<lparr>req_method = method, req_url = url, req_headers = headers,
                       req_body = (case body of None \<Rightarrow> None
                                   | Some b \<Rightarrow> if method = M_POST \<or> method = M_PUT
                                              then Some (JsonBody b) else None)\<rparr>;
                  s2 = s1\<lparr>uuids := Suc (uuids s1), sent := sent s1 @ [q]\<rparr>
              in case fetch_at (clock s2) q of
                   None \<Rightarrow> (Inl FetchFailed, s2)
                 | Some response \<Rightarrow>
                    (let s3 = s2\<lparr>clock := clock s2 + int (resp_elapsed response)\<rparr>
                     in case resp_json response of
                          None \<Rightarrow>
                            (Inl (Error (js ''TatraPay returned invalid response: '' @
                                         substring0 200 (resp_text response))),
                             s3\<lparr>console_error := console_error s3 @
                                  [InvalidJsonResponse (resp_text response)]\<rparr>)
                        | Some data \<Rightarrow>
                            if \<not> resp_ok response
                            then (Inl (Error (js ''TatraPay API error: '' @
                                              decimal (resp_status response) @ js '' - '' @
                                              resp_stringified response)),
                                  s3\<lparr>console_error := console_error s3 @
                                       [ApiErrorLogged (resp_status response)
                                          (resp_stringified response)]\<rparr>)
                            else (Inr data, s3)))))"

section \<open>Payment operations\<close>

record TatraPayAddress =
  streetName :: "jsstring option"
  buildingNumber :: "jsstring option"
  city :: "jsstring option"
  postalCode :: "jsstring option"
  country :: jsstring

record TatraPayCustomer =
  firstName :: jsstring
  lastName :: jsstring
  email :: jsstring
  phone :: "jsstring option"
  address :: "TatraPayAddress option"

record money =
  amount :: int  \<comment> \<open>in cents\<close>
  currency :: currency

record TatraPayCreatePaymentRequest =
  paymentMethod :: TatraPayMethod
  request_amount :: money  \<comment> \<open>the field \<open>amount\<close>\<close>
  merchantReference :: jsstring
  description :: "jsstring option"
  customer :: "TatraPayCustomer option"
  returnUrl :: jsstring
  notificationUrl :: "jsstring option"
  language :: "language option"
  validityMinutes :: "int option"
  customerIpAddress :: jsstring

text \<open>
  A JavaScript number is a binary64 floating-point number, and \<open>/\<close> gives the quotient
  rounded to the nearest number with a significand of 53 bits, ties to the even one. An
  amount in cents is an integer that a number holds. \<open>binary64_quotient n d\<close> is the value,
  a rational, of the number that \<open>n / d\<close> computes for two such integers, \<open>d\<close> positive:
  with \<open>2 ^ e \<le> |n / d| < 2 ^ (e + 1)\<close> the result is a multiple of \<open>2 ^ (e - 52)\<close>, and
  the multiplier is the integer nearest to \<open>|n / d| / 2 ^ (e - 52)\<close>. Subnormal and infinite
  results, which no integer divided by 100 has, are left out. \<open>bt_amount\<close> holds the value
  of \<open>request.amount.amount / 100\<close>.
\<close>

function bit_length :: "nat \<Rightarrow> nat" where
  \<comment> \<open>the number of binary digits of a natural number\<close>
  "bit_length n = (if n = 0 then 0 else Suc (bit_length (n div 2)))"
  by pat_completeness auto
termination
  by (relation "measure id") auto

declare bit_length.simps [simp del]

definition binary64_exponent :: "int \<Rightarrow> int \<Rightarrow> int" where
  "binary64_exponent a d =
     (let k = int (bit_length (nat a)) - int (bit_length (nat d))
      in if (2::rat) powi k \<le> of_int a / of_int d then k else k - 1)"

definition binary64_quotient :: "int \<Rightarrow> int \<Rightarrow> rat" where
  "binary64_quotient n d =
     (if n = 0 then 0
      else let q = binary64_exponent \<bar>n\<bar> d - 52;
               num = \<bar>n\<bar> * 2 ^ nat (- q);
               den = d * 2 ^ nat q;
               m0 = num div den;
               r = num mod den;
               m = (if 2 * r < den then m0
                    else if den < 2 * r then m0 + 1
                    else if even m0 then m0 else m0 + 1)
           in (if n < 0 then - 1 else 1) * of_int m * 2 powi q)"

record bank_transfer_info =
  bt_iban :: jsstring
  bt_bic :: jsstring
  bt_variableSymbol :: jsstring
  bt_amount :: rat
  bt_currency :: currency

datatype iso_string = ISOString int  \<comment> \<open>\<open>new Date(t).toISOString()\<close>\<close>

record TatraPayPaymentResponse =
  paymentId :: jsstring
  status :: TatraPayStatus
  redirectUrl :: "jsstring option"
  qrCodeData :: "jsstring option"
  bankTransferInfo :: "bank_transfer_info option"
  createdAt :: iso_string
  response_expiresAt :: "jsstring option"

definition isCardHolderChar :: "16 word \<Rightarrow> bool" where
  \<comment> \<open>the class \<open>[a-zA-Z0-9 .@_-]\<close>\<close>
  "isCardHolderChar c =
     ((0x61 \<le> c \<and> c \<le> 0x7A) \<or> (0x41 \<le> c \<and> c \<le> 0x5A) \<or> (0x30 \<le> c \<and> c \<le> 0x39) \<or>
      c = 0x20 \<or> c = 0x2E \<or> c = 0x40 \<or> c = 0x5F \<or> c = 0x2D)"

definition customerFullName :: "TatraPayCreatePaymentRequest \<Rightarrow> jsstring" where
  "customerFullName request =
     (case customer request of
        Some c \<Rightarrow> substring0 45 (trim (firstName c @ js '' '' @ lastName c))
      | None \<Rightarrow> js ''Customer'')"

definition sanitizedCardHolder :: "TatraPayCreatePaymentRequest \<Rightarrow> jsstring" where
  "sanitizedCardHolder request =
     or_else (Some (substring0 45 (filter isCardHolderChar (customerFullName request))))
       (js ''Customer'')"

definition apiBody :: "TatraPayCreatePaymentRequest \<Rightarrow> api_body" where
  "apiBody request =
     \<lparr>baseAmount = \<lparr>amountValue = amount (request_amount request),
                    ba_currency = currency (request_amount request)\<rparr>,
      api_merchantReference = filter (\<lambda>c. \<not> isWhiteSpace c) (merchantReference request),
      api_language = (case language request of None \<Rightarrow> sk | Some l \<Rightarrow> l),
      paymentDescription = (if truthy (description request) then description request else None),
      userData =
        (case customer request of
           None \<Rightarrow> None
         | Some c \<Rightarrow> Some \<lparr>ud_firstName = firstName c, ud_lastName = lastName c,
                           ud_email = email c,
                           ud_phone = (if truthy (phone c) then phone c else None)\<rparr>),
      cardDetail = (if paymentMethod request = CARD_PAY
                    then Some \<lparr>cardHolder = sanitizedCardHolder request\<rparr> else None),
      bankTransfer = (if paymentMethod request = BANK_TRANSFER then Some () else None)\<rparr>"

text \<open>
  \<open>createPayment\<close> in two parts: \<open>createPayment_response\<close> is what the \<open>await apiRequest(...)\<close>
  in its middle gives to the constant \<open>response\<close>, with the headers the call passes on;
  \<open>createPayment\<close> goes on from there.
\<close>

definition createPayment_response ::
  "platform \<Rightarrow> TatraPayCreatePaymentRequest \<Rightarrow> state \<Rightarrow> (error + creation_data) \<times> state" where
  "createPayment_response p request s =
     (let baseRedirectUrl = takeWhile (\<lambda>c. c \<noteq> 0x3F) (returnUrl request)
      in apiRequest p (paymentsEndpoint p) M_POST (js ''/v1/payments'')
           (Some (apiBody request)) (Some (customerIpAddress request))
           (Some baseRedirectUrl) (Some (paymentMethod request)) s)"

definition createPayment ::
  "platform \<Rightarrow> TatraPayCreatePaymentRequest \<Rightarrow> state \<Rightarrow> (error + TatraPayPaymentResponse) \<times> state" where
  "createPayment p request s =
     (case createPayment_response p request s of
           (Inl err, s1) \<Rightarrow> (Inl err, s1)
         | (Inr response, s1) \<Rightarrow>
            if paymentMethod request = CARD_PAY \<and> \<not> truthy (tatraPayPlusUrl response)
            then (case (case availablePaymentMethods response of
                          None \<Rightarrow> None
                        | Some ms \<Rightarrow> find (\<lambda>m. am_paymentMethod m = js ''CARD_PAY'') ms) of
                    Some cardMethod \<Rightarrow>
                      if \<not> isAvailable cardMethod
                      then (Inl (Error (js ''TatraPay: '' @
                                        or_else (reasonCodeMethodAvailabilityDescription cardMethod)
                                          (js ''Card payment not available''))), s1)
                      else (Inl (Error (js ''TatraPay: No redirect URL returned for card payment'')), s1)
                  | None \<Rightarrow>
                      (Inl (Error (js ''TatraPay: No redirect URL returned for card payment'')), s1))
            else (Inr \<lparr>paymentId = cd_paymentId response,
                       status = js ''RCVD'',
                       redirectUrl = tatraPayPlusUrl response,
                       qrCodeData = None,
                       bankTransferInfo =
                         (case bankTransferData response of
                            None \<Rightarrow> None
                          | Some d \<Rightarrow> Some \<lparr>bt_iban = iban d, bt_bic = bic d,
                                            bt_variableSymbol = variableSymbol d,
                                            bt_amount = binary64_quotient (amount (request_amount request)) 100,
                                            bt_currency = currency (request_amount request)\<rparr>),
                       createdAt = ISOString (clock s1),
                       response_expiresAt = None\<rparr>, s1))"

record TatraPayStatusResponse =
  sr_paymentId :: jsstring
  sr_status :: TatraPayStatus
  sr_merchantReference :: jsstring
  sr_amount :: status_amount
  sr_paidAmount :: "status_amount option"
  sr_paymentMethod :: jsstring
  sr_createdAt :: jsstring
  sr_updatedAt :: jsstring
  sr_transactionId :: "jsstring option"

definition getPaymentStatus ::
  "platform \<Rightarrow> jsstring \<Rightarrow> state \<Rightarrow> (error + TatraPayStatusResponse) \<times> state" where
  "getPaymentStatus p pid s =
     (case apiRequest p (statusEndpoint p) M_GET (js ''/v1/payments/'' @ pid @ js ''/status'')
             None None None None s of
        (Inl err, s1) \<Rightarrow> (Inl err, s1)
      | (Inr response, s1) \<Rightarrow>
         (Inr \<lparr>sr_paymentId = sd_paymentId response,
               sr_status = sd_status response,
               sr_merchantReference = sd_merchantReference response,
               sr_amount = \<lparr>sa_amount = sa_amount (instructedAmount response),
                            sa_currency = sa_currency (instructedAmount response)\<rparr>,
               sr_paidAmount =
                 (case sd_paidAmount response of
                    None \<Rightarrow> None
                  | Some a \<Rightarrow> Some \<lparr>sa_amount = sa_amount a, sa_currency = sa_currency a\<rparr>),
               sr_paymentMethod = sd_paymentMethod response,
               sr_createdAt = sd_createdAt response,
               sr_updatedAt = sd_updatedAt response,
               sr_transactionId = sd_transactionId response\<rparr>, s1))"

section \<open>The callback route\<close>

text \<open>
  The handler reads nothing of the request but the query of its URL; \<open>searchParams\<close> is that
  query, parsed, in order. The response is always a redirect to
  \<open>${baseUrl}/payment/${status}?${params.toString()}\<close>, kept as its three parts.
\<close>

record NextRequest =
  searchParams :: "(jsstring \<times> jsstring) list"

datatype result_page = page_success | page_failed | page_pending | page_error

record redirect =
  redirect_base :: jsstring
  redirect_page :: result_page
  redirect_params :: "(jsstring \<times> jsstring) list"

fun params_set :: "(jsstring \<times> jsstring) list \<Rightarrow> jsstring \<Rightarrow> jsstring \<Rightarrow> (jsstring \<times> jsstring) list" where
  \<comment> \<open>\<open>URLSearchParams.set\<close>: the first pair of that name gets the value and the others go; a new name is appended\<close>
  "params_set [] k v = [(k, v)]"
| "params_set ((k', v') # ps) k v =
     (if k' = k then (k, v) # filter (\<lambda>kv. fst kv \<noteq> k) ps
      else (k', v') # params_set ps k v)"

definition redirectToResult :: "environment \<Rightarrow> result_page \<Rightarrow> jsstring \<Rightarrow> jsstring option \<Rightarrow> redirect" where
  "redirectToResult e page message orderId =
     (let base = or_else (NEXT_PUBLIC_BASE_URL e) (js ''http://localhost:3000'');
          params = [(js ''message'', message)]
      in \<lparr>redirect_base = base,
          redirect_page = page,
          redirect_params =
            (case orderId of
               None \<Rightarrow> params
             | Some oid \<Rightarrow> if oid = [] then params else params_set params (js ''orderId'') oid)\<rparr>)"

text \<open>
  The handler as it is written. \<open>paymentId\<close> is the constant that the source binds it to,
  in the place where a lookup of the order in a database is to come; the guard that follows
  turns that constant away, so nothing behind the guard is ever run.
\<close>

definition GET :: "platform \<Rightarrow> NextRequest \<Rightarrow> state \<Rightarrow> redirect \<times> state" where
  "GET p request s =
     (case map_of (searchParams request) (js ''orderId'') of
        None \<Rightarrow> (redirectToResult (env p) page_error (js ''Missing order ID'') None, s)
      | Some orderId \<Rightarrow>
         if orderId = []
         then (redirectToResult (env p) page_error (js ''Missing order ID'') None, s)
         else (let paymentId = js ''YOUR_STORED_PAYMENT_ID''
               in if paymentId = [] \<or> paymentId = js ''YOUR_STORED_PAYMENT_ID''
                  then (redirectToResult (env p) page_error (js ''Payment not found'') None,
                        s\<lparr>console_error := console_error s @ [NoPaymentIdFound orderId]\<rparr>)
                  else (case getPaymentStatus p paymentId s of
                          (Inl err, s1) \<Rightarrow>
                            (redirectToResult (env p) page_error (js ''Error verifying payment'') None,
                             s1\<lparr>console_error := console_error s1 @ [CallbackError err]\<rparr>)
                        | (Inr paymentStatus, s1) \<Rightarrow>
                            if isPaymentSuccessful (sr_status paymentStatus)
                            then (redirectToResult (env p) page_success
                                    (js ''Payment successful'') None, s1)
                            else if isPaymentFailed (sr_status paymentStatus)
                            then (redirectToResult (env p) page_failed
                                    (js ''Payment was declined'') (Some orderId), s1)
                            else (redirectToResult (env p) page_pending
                                    (js ''Awaiting payment confirmation'') None, s1))))"

section \<open>Scenarios\<close>

text \<open>
  A process with credentials, in the sandbox, whose clock reads 1000000 and whose cache is
  empty, and gateways to run it against. The token endpoint of \<open>gateway\<close> issues the token
  \<open>tok-1\<close> for an hour after 120 ms. Its payment endpoint answers 201 after 80 ms: a
  request with \<open>cardDetail\<close> gets a redirect URL, one with \<open>bankTransfer\<close> gets transfer
  data, any other gets neither. Its status endpoint reports the payment as rejected.
\<close>

definition example_env :: environment where
  "example_env =
     \<lparr>TATRAPAY_CLIENT_ID = Some (js ''client''), TATRAPAY_CLIENT_SECRET = Some (js ''secret''),
      TATRAPAY_SANDBOX = None, NEXT_PUBLIC_BASE_URL = Some (js ''https://shop.example'')\<rparr>"

definition shop_credentials :: TatraPayCredentials where
  "shop_credentials = \<lparr>clientId = js ''client'', clientSecret = js ''secret'', isSandbox = True\<rparr>"

definition start :: state where
  "start = \<lparr>clock = 1000000, cachedToken = None, sent = [], console_error = [], uuids = 0\<rparr>"

definition issued_token :: "token_data http_response" where
  "issued_token =
     \<lparr>resp_status = 200, resp_text = js ''token'',
      resp_json = Some \<lparr>access_token = js ''tok-1'', token_type = js ''Bearer'',
                        expires_in = 3600, scope = js ''TATRAPAYPLUS''\<rparr>,
      resp_stringified = js ''token'', resp_elapsed = 120\<rparr>"

definition created :: "jsstring option \<Rightarrow> bank_transfer_data option \<Rightarrow> creation_data http_response" where
  "created url transfer =
     \<lparr>resp_status = 201, resp_text = js ''payment'',
      resp_json = Some \<lparr>cd_paymentId = js ''pay-1'', tatraPayPlusUrl = url,
                        bankTransferData = transfer, availablePaymentMethods = None\<rparr>,
      resp_stringified = js ''payment'', resp_elapsed = 80\<rparr>"

definition transfer_data :: bank_transfer_data where
  "transfer_data = \<lparr>iban = js ''SK3111000000001234567890'', bic = js ''TATRSKBX'',
                    variableSymbol = js ''1234567890''\<rparr>"

definition payments_answer :: "int \<Rightarrow> http_request \<Rightarrow> creation_data http_response option" where
  "payments_answer t q =
     (case req_body q of
        Some (JsonBody b) \<Rightarrow>
          if cardDetail b \<noteq> None then Some (created (Some (js ''https://pay.example/go'')) None)
          else if bankTransfer b \<noteq> None then Some (created None (Some transfer_data))
          else Some (created None None)
      | _ \<Rightarrow> Some (created None None))"

definition rejected_status :: "status_data http_response" where
  "rejected_status =
     \<lparr>resp_status = 200, resp_text = js ''status'',
      resp_json = Some \<lparr>sd_paymentId = js ''pay-1'', sd_status = js ''RJCT'',
                        sd_merchantReference = js ''ORDER-123'',
                        instructedAmount = \<lparr>sa_amount = 79, sa_currency = js ''EUR''\<rparr>,
                        sd_paidAmount = None, sd_paymentMethod = js ''CARD_PAY'',
                        sd_createdAt = js ''2026-01-01T10:00:00Z'',
                        sd_updatedAt = js ''2026-01-01T10:01:00Z'',
                        sd_transactionId = None\<rparr>,
      resp_stringified = js ''status'', resp_elapsed = 50\<rparr>"

definition gateway :: platform where
  "gateway =
     \<lparr>env = example_env,
      randomUUID = (\<lambda>n. js ''uuid-'' @ decimal n),
      tokenEndpoint = (\<lambda>t q. Some issued_token),
      paymentsEndpoint = payments_answer,
      statusEndpoint = (\<lambda>t q. Some rejected_status)\<rparr>"

text \<open>A gateway that accepts every payment request and sends back the payment's id only.\<close>

definition bare_gateway :: platform where
  "bare_gateway = gateway\<lparr>paymentsEndpoint := (\<lambda>t q. Some (created None None))\<rparr>"

text \<open>A gateway whose token endpoint refuses the credentials: 401 with the body \<open>invalid_client\<close>.\<close>

definition refusing_gateway :: platform where
  "refusing_gateway =
     gateway\<lparr>tokenEndpoint := (\<lambda>t q. Some
       \<lparr>resp_status = 401, resp_text = js ''invalid_client'', resp_json = None,
        resp_stringified = [], resp_elapsed = 30\<rparr>)\<rparr>"

definition payment_request :: "TatraPayMethod \<Rightarrow> int \<Rightarrow> TatraPayCreatePaymentRequest" where
  "payment_request m cents =
     \<lparr>paymentMethod = m,
      request_amount = \<lparr>amount = cents, currency = EUR\<rparr>,
      merchantReference = js ''ORDER 123 A'',
      description = None,
      customer = Some \<lparr>firstName = [0x4A, 0xE1, 0x6E],
                       lastName = [0x10C, 0x69, 0x65, 0x72, 0x6E, 0x79, 0x21, 0x21],
                       email = js ''jan@example.com'', phone = None, address = None\<rparr>,
      returnUrl = js ''https://shop.example/api/payment/callback?orderId=123'',
      notificationUrl = None, language = None, validityMinutes = None,
      customerIpAddress = js ''1.2.3.4''\<rparr>"

definition callback_request :: "string \<Rightarrow> NextRequest" where
  "callback_request oid = \<lparr>searchParams = [(js ''orderId'', js oid), (js ''paymentId'', js ''pay-1'')]\<rparr>"

text \<open>
  Two states with a cached token \<open>tok-0\<close>: in \<open>warm\<close> it expires 60001 ms from now, in
  \<open>stale\<close> 60000 ms from now.
\<close>

definition warm :: state where
  "warm = start\<lparr>cachedToken := Some \<lparr>access_token = js ''tok-0'', token_type = js ''Bearer'',
                                       expires_in = 60, scope = js ''TATRAPAYPLUS'',
                                       expiresAt = 1060001\<rparr>\<rparr>"

definition stale :: state where
  "stale = start\<lparr>cachedToken := Some \<lparr>access_token = js ''tok-0'', token_type = js ''Bearer'',
                                       expires_in = 60, scope = js ''TATRAPAYPLUS'',
                                       expiresAt = 1060000\<rparr>\<rparr>"

text \<open>
  What the process of the scenarios hands to \<open>fetch\<close> for the payment request
  \<open>payment_request\<close>, whose customer has a name with two accented letters and two
  exclamation marks and whose reference is \<open>ORDER 123 A\<close>; and what \<open>createPayment\<close>
  returns when the gateway has answered.
\<close>

definition posted_request :: "TatraPayMethod \<Rightarrow> int \<Rightarrow> http_request" where
  "posted_request m cents =
     \<lparr>req_method = M_POST,
      req_url = js ''https://api.tatrabanka.sk/tatrapayplus/sandbox/v1/payments'',
      req_headers =
        [(js ''Authorization'', js ''Bearer tok-1''),
         (js ''Content-Type'', js ''application/json''),
         (js ''X-Request-ID'', js ''uuid-0''),
         (js ''IP-Address'', js ''1.2.3.4''),
         (js ''Redirect-URI'', js ''https://shop.example/api/payment/callback''),
         (js ''Preferred-Method'', method_name m)],
      req_body = Some (JsonBody
        \<lparr>baseAmount = \<lparr>amountValue = cents, ba_currency = EUR\<rparr>,
         api_merchantReference = js ''ORDER123A'',
         api_language = sk,
         paymentDescription = None,
         userData = Some \<lparr>ud_firstName = [0x4A, 0xE1, 0x6E],
                          ud_lastName = [0x10C, 0x69, 0x65, 0x72, 0x6E, 0x79, 0x21, 0x21],
                          ud_email = js ''jan@example.com'', ud_phone = None\<rparr>,
         cardDetail = (if m = CARD_PAY then Some \<lparr>cardHolder = js ''Jn ierny''\<rparr> else None),
         bankTransfer = (if m = BANK_TRANSFER then Some () else None)\<rparr>)\<rparr>"

definition payment_response :: "jsstring option \<Rightarrow> bank_transfer_info option \<Rightarrow> TatraPayPaymentResponse" where
  "payment_response url info =
     \<lparr>paymentId = js ''pay-1'', status = js ''RCVD'', redirectUrl = url, qrCodeData = None,
      bankTransferInfo = info, createdAt = ISOString 1000200, response_expiresAt = None\<rparr>"

definition transfer_info :: "rat \<Rightarrow> bank_transfer_info" where
  "transfer_info a =
     \<lparr>bt_iban = js ''SK3111000000001234567890'', bt_bic = js ''TATRSKBX'',
      bt_variableSymbol = js ''1234567890'', bt_amount = a, bt_currency = EUR\<rparr>"

section \<open>Properties of the status helpers\<close>

lemma success_not_failed: "\<forall>c \<in> set successCodes. c \<notin> set failedCodes"
  by (simp add: successCodes_def failedCodes_def js_def)

text \<open>
  C6. For each of the eight success codes ACCC, ACSC, ACSP, ACCP, ACTC, ACWC, ACWP and ACFC,
  \<open>isPaymentSuccessful\<close> is true, \<open>isPaymentFailed\<close> is false and \<open>mapToInternalStatus\<close>
  gives \<open>completed\<close>. For every other string that is neither RJCT nor CANC, recognised or
  not, \<open>mapToInternalStatus\<close> gives \<open>pending\<close>. The function is total: it has a value of
  type \<open>internal_status\<close> at every string and no error result.
\<close>

theorem mapToInternalStatus_classification:
  "(code \<in> {js ''ACCC'', js ''ACSC'', js ''ACSP'', js ''ACCP'',
               js ''ACTC'', js ''ACWC'', js ''ACWP'', js ''ACFC''} \<longrightarrow>
      isPaymentSuccessful code \<and> \<not> isPaymentFailed code \<and>
      mapToInternalStatus code = completed) \<and>
   (code \<notin> {js ''ACCC'', js ''ACSC'', js ''ACSP'', js ''ACCP'',
               js ''ACTC'', js ''ACWC'', js ''ACWP'', js ''ACFC''} \<and>
    code \<notin> {js ''RJCT'', js ''CANC''} \<longrightarrow>
      mapToInternalStatus code = pending)"
proof (intro conjI impI)
  assume s: "code \<in> {js ''ACCC'', js ''ACSC'', js ''ACSP'', js ''ACCP'',
                        js ''ACTC'', js ''ACWC'', js ''ACWP'', js ''ACFC''}"
  then have m: "code \<in> set successCodes"
    by (simp add: successCodes_def)
  then show ok: "isPaymentSuccessful code"
    by (simp add: isPaymentSuccessful_def)
  from m show "\<not> isPaymentFailed code"
    using success_not_failed by (simp add: isPaymentFailed_def)
  from ok show "mapToInternalStatus code = completed"
    by (simp add: mapToInternalStatus_def)
next
  assume "code \<notin> {js ''ACCC'', js ''ACSC'', js ''ACSP'', js ''ACCP'',
                     js ''ACTC'', js ''ACWC'', js ''ACWP'', js ''ACFC''} \<and>
          code \<notin> {js ''RJCT'', js ''CANC''}"
  then show "mapToInternalStatus code = pending"
    by (simp add: mapToInternalStatus_def isPaymentSuccessful_def isPaymentFailed_def
        successCodes_def failedCodes_def)
qed

theorem mapToInternalStatus_classification_witness:
  "js ''ACSC'' \<in> {js ''ACCC'', js ''ACSC'', js ''ACSP'', js ''ACCP'',
                   js ''ACTC'', js ''ACWC'', js ''ACWP'', js ''ACFC''} \<and>
   isPaymentSuccessful (js ''ACSC'') \<and> \<not> isPaymentFailed (js ''ACSC'') \<and>
   mapToInternalStatus (js ''ACSC'') = completed \<and>
   js ''AUTH_DONE'' \<notin> {js ''ACCC'', js ''ACSC'', js ''ACSP'', js ''ACCP'',
                        js ''ACTC'', js ''ACWC'', js ''ACWP'', js ''ACFC''} \<and>
   js ''AUTH_DONE'' \<notin> {js ''RJCT'', js ''CANC''} \<and>
   mapToInternalStatus (js ''AUTH_DONE'') = pending"
  using mapToInternalStatus_classification [of "js ''ACSC''"]
    mapToInternalStatus_classification [of "js ''AUTH_DONE''"]
  by (simp add: js_def)

section \<open>The token cache\<close>

lemma js_Nil_iff [simp]: "js x = [] \<longleftrightarrow> x = []"
  by (simp add: js_def)

lemma getConfig_credentials:
  "getCredentials e = Inr c \<Longrightarrow> getConfig e = Inr (TATRAPAY_CONFIG (isSandbox c))"
  by (simp add: getConfig_def)

lemma token_valid_iff:
  "token_valid s \<longleftrightarrow> (\<exists>t. cachedToken s = Some t \<and> clock s < expiresAt t - 60000)"
  by (simp add: token_valid_def split: option.splits)

lemma getAccessToken_valid:
  "cachedToken s = Some t \<Longrightarrow> clock s < expiresAt t - 60000 \<Longrightarrow>
   getAccessToken p s = (Inr (access_token t), s)"
  by (simp add: getAccessToken_def token_valid_def)

lemma getAccessToken_refresh:
  assumes "\<not> token_valid s" and "getCredentials (env p) = Inr c"
  shows "getAccessToken p s =
     (let q = tokenRequest c (TATRAPAY_CONFIG (isSandbox c)); s1 = s\<lparr>sent := sent s @ [q]\<rparr>
      in case tokenEndpoint p (clock s) q of
           None \<Rightarrow> (Inl FetchFailed, s1)
         | Some response \<Rightarrow>
            (let s2 = s1\<lparr>clock := clock s + int (resp_elapsed response)\<rparr>
             in if \<not> resp_ok response
                then (Inl (Error (js ''TatraPay authentication failed: '' @ decimal (resp_status response))),
                      s2\<lparr>console_error := console_error s @
                            [TokenRequestFailed (resp_status response) (resp_text response)]\<rparr>)
                else (case resp_json response of
                        None \<Rightarrow> (Inl JsonSyntaxError, s2)
                      | Some tokenData \<Rightarrow>
                          (Inr (access_token tokenData),
                           s2\<lparr>cachedToken := Some
                                \<lparr>access_token = access_token tokenData,
                                 token_type = token_type tokenData,
                                 expires_in = expires_in tokenData,
                                 scope = scope tokenData,
                                 expiresAt = clock s + int (resp_elapsed response) +
                                             expires_in tokenData * 1000\<rparr>\<rparr>))))"
  using assms by (simp add: getAccessToken_def getConfig_credentials Let_def split: option.splits)

text \<open>
  C5. If a cached token exists and the clock reads strictly less than its expiry minus
  60000 ms, \<open>getAccessToken\<close> returns the cached access token and leaves the state as it
  was: nothing is sent. Otherwise, with credentials configured, it hands exactly one
  request to \<open>fetch\<close>, the token request; when the endpoint answers it with a success
  status and a JSON body, the token of the answer is stored with
  \<open>expiresAt = now + expires_in * 1000\<close>, \<open>now\<close> being the clock when the answer has
  arrived, and its access token is returned.
\<close>

theorem getAccessToken_cache:
  "(cachedToken s = Some t \<and> clock s < expiresAt t - 60000 \<longrightarrow>
      getAccessToken p s = (Inr (access_token t), s)) \<and>
   ((\<forall>t. cachedToken s = Some t \<longrightarrow> \<not> clock s < expiresAt t - 60000) \<and>
    getCredentials (env p) = Inr credentials \<longrightarrow>
      sent (snd (getAccessToken p s)) =
        sent s @ [tokenRequest credentials (TATRAPAY_CONFIG (isSandbox credentials))] \<and>
      (tokenEndpoint p (clock s)
         (tokenRequest credentials (TATRAPAY_CONFIG (isSandbox credentials))) = Some response \<and>
       resp_ok response \<and> resp_json response = Some tokenData \<longrightarrow>
         getAccessToken p s =
           (Inr (access_token tokenData),
            s\<lparr>sent := sent s @ [tokenRequest credentials (TATRAPAY_CONFIG (isSandbox credentials))],
              clock := clock s + int (resp_elapsed response),
              cachedToken := Some
                \<lparr>access_token = access_token tokenData,
                 token_type = token_type tokenData,
                 expires_in = expires_in tokenData,
                 scope = scope tokenData,
                 expiresAt = (clock s + int (resp_elapsed response)) +
                             expires_in tokenData * 1000\<rparr>\<rparr>)))"
proof (intro conjI impI)
  assume "cachedToken s = Some t \<and> clock s < expiresAt t - 60000"
  then show "getAccessToken p s = (Inr (access_token t), s)"
    by (simp add: getAccessToken_valid)
next
  assume a: "(\<forall>t. cachedToken s = Some t \<longrightarrow> \<not> clock s < expiresAt t - 60000) \<and>
             getCredentials (env p) = Inr credentials"
  then have nv: "\<not> token_valid s"
    by (simp add: token_valid_iff)
  from a have c: "getCredentials (env p) = Inr credentials" by simp
  show "sent (snd (getAccessToken p s)) =
        sent s @ [tokenRequest credentials (TATRAPAY_CONFIG (isSandbox credentials))]"
    by (simp add: getAccessToken_refresh [OF nv c] Let_def split: option.splits)
  assume "tokenEndpoint p (clock s)
            (tokenRequest credentials (TATRAPAY_CONFIG (isSandbox credentials))) = Some response \<and>
          resp_ok response \<and> resp_json response = Some tokenData"
  then show "getAccessToken p s =
           (Inr (access_token tokenData),
            s\<lparr>sent := sent s @ [tokenRequest credentials (TATRAPAY_CONFIG (isSandbox credentials))],
              clock := clock s + int (resp_elapsed response),
              cachedToken := Some
                \<lparr>access_token = access_token tokenData,
                 token_type = token_type tokenData,
                 expires_in = expires_in tokenData,
                 scope = scope tokenData,
                 expiresAt = (clock s + int (resp_elapsed response)) +
                             expires_in tokenData * 1000\<rparr>\<rparr>)"
    by (simp add: getAccessToken_refresh [OF nv c] Let_def)
qed

lemma example_credentials:
  "getCredentials (env gateway) = Inr \<lparr>clientId = js ''client'', clientSecret = js ''secret'', isSandbox = True\<rparr>"
  by (simp add: getCredentials_def gateway_def example_env_def)

theorem getAccessToken_cache_witness:
  "cachedToken warm = Some \<lparr>access_token = js ''tok-0'', token_type = js ''Bearer'',
                             expires_in = 60, scope = js ''TATRAPAYPLUS'', expiresAt = 1060001\<rparr> \<and>
   clock warm < 1060001 - 60000 \<and>
   getAccessToken gateway warm = (Inr (js ''tok-0''), warm) \<and>
   cachedToken stale = Some \<lparr>access_token = js ''tok-0'', token_type = js ''Bearer'',
                              expires_in = 60, scope = js ''TATRAPAYPLUS'', expiresAt = 1060000\<rparr> \<and>
   \<not> clock stale < 1060000 - 60000 \<and>
   getCredentials (env gateway) =
     Inr \<lparr>clientId = js ''client'', clientSecret = js ''secret'', isSandbox = True\<rparr> \<and>
   tokenEndpoint gateway (clock stale)
     (tokenRequest \<lparr>clientId = js ''client'', clientSecret = js ''secret'', isSandbox = True\<rparr>
        (TATRAPAY_CONFIG True)) = Some issued_token \<and>
   resp_ok issued_token \<and>
   fst (getAccessToken gateway stale) = Inr (js ''tok-1'') \<and>
   map req_url (sent (snd (getAccessToken gateway stale))) =
     [js ''https://api.tatrabanka.sk/tatrapayplus/sandbox/auth/oauth/v2/token''] \<and>
   clock (snd (getAccessToken gateway stale)) = 1000120 \<and>
   map_option expiresAt (cachedToken (snd (getAccessToken gateway stale))) = Some 4600120"
proof -
  let ?tok = "\<lparr>access_token = js ''tok-0'', token_type = js ''Bearer'',
               expires_in = 60, scope = js ''TATRAPAYPLUS'', expiresAt = 1060001\<rparr>"
  let ?c = "\<lparr>clientId = js ''client'', clientSecret = js ''secret'', isSandbox = True\<rparr>"
  let ?d = "\<lparr>access_token = js ''tok-1'', token_type = js ''Bearer'',
             expires_in = 3600, scope = js ''TATRAPAYPLUS''\<rparr>"
  have w: "cachedToken warm = Some ?tok \<and> clock warm < expiresAt ?tok - 60000"
    by (simp add: warm_def start_def)
  have st: "(\<forall>t. cachedToken stale = Some t \<longrightarrow> \<not> clock stale < expiresAt t - 60000) \<and>
            getCredentials (env gateway) = Inr ?c"
    by (simp add: stale_def start_def example_credentials)
  have ep: "tokenEndpoint gateway (clock stale) (tokenRequest ?c (TATRAPAY_CONFIG (isSandbox ?c))) =
              Some issued_token \<and> resp_ok issued_token \<and> resp_json issued_token = Some ?d"
    by (simp add: gateway_def issued_token_def resp_ok_def)
  from w have 1: "getAccessToken gateway warm = (Inr (access_token ?tok), warm)"
    using getAccessToken_cache [of warm ?tok gateway] by blast
  from st ep have 2: "getAccessToken gateway stale =
           (Inr (access_token ?d),
            stale\<lparr>sent := sent stale @ [tokenRequest ?c (TATRAPAY_CONFIG (isSandbox ?c))],
              clock := clock stale + int (resp_elapsed issued_token),
              cachedToken := Some
                \<lparr>access_token = access_token ?d,
                 token_type = token_type ?d,
                 expires_in = expires_in ?d,
                 scope = scope ?d,
                 expiresAt = (clock stale + int (resp_elapsed issued_token)) +
                             expires_in ?d * 1000\<rparr>\<rparr>)"
    using getAccessToken_cache [of stale _ gateway ?c issued_token ?d] by blast
  have s0: "cachedToken stale = Some \<lparr>access_token = js ''tok-0'', token_type = js ''Bearer'',
                              expires_in = 60, scope = js ''TATRAPAYPLUS'', expiresAt = 1060000\<rparr> \<and>
            \<not> clock stale < 1060000 - 60000"
    by (simp add: stale_def start_def)
  from w st ep s0 show ?thesis
    unfolding 1 2
    by (simp add: stale_def start_def issued_token_def tokenRequest_def TATRAPAY_CONFIG_def)
qed

lemmas scenario_defs = gateway_def bare_gateway_def refusing_gateway_def example_env_def start_def
  issued_token_def created_def transfer_data_def payments_answer_def rejected_status_def
  payment_request_def callback_request_def warm_def stale_def shop_credentials_def
  posted_request_def payment_response_def transfer_info_def
lemmas model_defs = getAccessToken_def token_valid_def getCredentials_def getConfig_def tokenRequest_def
  TATRAPAY_CONFIG_def resp_ok_def apiRequest_def optional_header_def method_name_def
  createPayment_response_def createPayment_def apiBody_def sanitizedCardHolder_def customerFullName_def
  or_else_def truthy_def substring0_def trim_def isWhiteSpace_def isCardHolderChar_def
  getPaymentStatus_def

text \<open>
  A token fetched once is reused: the call that follows the refresh of the scenario returns
  the new token and sends nothing.
\<close>

lemma getAccessToken_reuse:
  "getAccessToken gateway (snd (getAccessToken gateway stale)) =
     (Inr (js ''tok-1''), snd (getAccessToken gateway stale))"
  by (simp add: scenario_defs model_defs Let_def)

section \<open>Failure of the token exchange\<close>

text \<open>
  C7. When the token endpoint answers with a status outside 200..299, \<open>getAccessToken\<close>
  fails with the error whose message is \<open>TatraPay authentication failed: \<close> followed by
  the status in decimal: the error carries the status and nothing of the body. The body
  of the answer goes to the error console, next to the status, and the cache is left as
  it was.
\<close>

theorem getAccessToken_refused:
  "(\<forall>t. cachedToken s = Some t \<longrightarrow> \<not> clock s < expiresAt t - 60000) \<and>
   getCredentials (env p) = Inr credentials \<and>
   tokenEndpoint p (clock s)
     (tokenRequest credentials (TATRAPAY_CONFIG (isSandbox credentials))) = Some response \<and>
   \<not> resp_ok response \<longrightarrow>
     fst (getAccessToken p s) =
       Inl (Error (js ''TatraPay authentication failed: '' @ decimal (resp_status response))) \<and>
     console_error (snd (getAccessToken p s)) =
       console_error s @ [TokenRequestFailed (resp_status response) (resp_text response)] \<and>
     cachedToken (snd (getAccessToken p s)) = cachedToken s"
proof
  assume a: "(\<forall>t. cachedToken s = Some t \<longrightarrow> \<not> clock s < expiresAt t - 60000) \<and>
   getCredentials (env p) = Inr credentials \<and>
   tokenEndpoint p (clock s)
     (tokenRequest credentials (TATRAPAY_CONFIG (isSandbox credentials))) = Some response \<and>
   \<not> resp_ok response"
  then have nv: "\<not> token_valid s"
    by (simp add: token_valid_iff)
  from a have c: "getCredentials (env p) = Inr credentials" by simp
  from a show "fst (getAccessToken p s) =
       Inl (Error (js ''TatraPay authentication failed: '' @ decimal (resp_status response))) \<and>
     console_error (snd (getAccessToken p s)) =
       console_error s @ [TokenRequestFailed (resp_status response) (resp_text response)] \<and>
     cachedToken (snd (getAccessToken p s)) = cachedToken s"
    by (simp add: getAccessToken_refresh [OF nv c] Let_def)
qed

lemma refusing_credentials: "getCredentials (env refusing_gateway) = Inr shop_credentials"
  by (simp add: getCredentials_def refusing_gateway_def gateway_def example_env_def shop_credentials_def)

lemma refusing_answer:
  "tokenEndpoint refusing_gateway t q =
     Some \<lparr>resp_status = 401, resp_text = js ''invalid_client'', resp_json = None,
           resp_stringified = [], resp_elapsed = 30\<rparr>"
  by (simp add: refusing_gateway_def)

lemma decimal_401: "decimal 401 = js ''401''"
  by (simp add: decimal.simps js_def)

theorem getAccessToken_refused_witness:
  "cachedToken start = None \<and>
   getCredentials (env refusing_gateway) = Inr shop_credentials \<and>
   map_option resp_status (tokenEndpoint refusing_gateway (clock start)
     (tokenRequest shop_credentials (TATRAPAY_CONFIG (isSandbox shop_credentials)))) = Some 401 \<and>
   fst (getAccessToken refusing_gateway start) =
     Inl (Error (js ''TatraPay authentication failed: 401'')) \<and>
   console_error (snd (getAccessToken refusing_gateway start)) =
     [TokenRequestFailed 401 (js ''invalid_client'')] \<and>
   cachedToken (snd (getAccessToken refusing_gateway start)) = None"
proof -
  let ?r = "\<lparr>resp_status = 401, resp_text = js ''invalid_client'', resp_json = None :: token_data option,
           resp_stringified = [], resp_elapsed = 30\<rparr>"
  have h: "(\<forall>t. cachedToken start = Some t \<longrightarrow> \<not> clock start < expiresAt t - 60000) \<and>
     getCredentials (env refusing_gateway) = Inr shop_credentials \<and>
     tokenEndpoint refusing_gateway (clock start)
       (tokenRequest shop_credentials (TATRAPAY_CONFIG (isSandbox shop_credentials))) = Some ?r \<and>
     \<not> resp_ok ?r"
    by (simp add: start_def refusing_credentials refusing_answer resp_ok_def)
  from getAccessToken_refused [of start refusing_gateway shop_credentials ?r] h
  have "fst (getAccessToken refusing_gateway start) =
       Inl (Error (js ''TatraPay authentication failed: '' @ decimal (resp_status ?r))) \<and>
     console_error (snd (getAccessToken refusing_gateway start)) =
       console_error start @ [TokenRequestFailed (resp_status ?r) (resp_text ?r)] \<and>
     cachedToken (snd (getAccessToken refusing_gateway start)) = cachedToken start"
    by blast
  moreover have "cachedToken start = None"
    by (simp add: start_def)
  ultimately show ?thesis
    using h by (simp add: decimal_401 start_def js_def)
qed

text \<open>
  That the error surfaces the body of the answer does not hold: against a token endpoint that
  answers 401 with the body \<open>invalid_client\<close>, the message of the error is
  \<open>TatraPay authentication failed: 401\<close>, and the body occurs nowhere in it.
\<close>

theorem getAccessToken_refused_counterexample:
  "map_option resp_text (tokenEndpoint refusing_gateway (clock start)
     (tokenRequest shop_credentials (TATRAPAY_CONFIG True))) = Some (js ''invalid_client'') \<and>
   fst (getAccessToken refusing_gateway start) =
     Inl (Error (js ''TatraPay authentication failed: 401'')) \<and>
   \<not> sublist (js ''invalid_client'') (js ''TatraPay authentication failed: 401'')"
proof -
  have nv: "\<not> token_valid start"
    by (simp add: token_valid_def start_def)
  have "fst (getAccessToken refusing_gateway start) =
     Inl (Error (js ''TatraPay authentication failed: 401''))"
    by (simp add: getAccessToken_refresh [OF nv refusing_credentials] refusing_answer Let_def
        resp_ok_def decimal_401 js_def)
  moreover have "\<not> sublist (js ''invalid_client'') (js ''TatraPay authentication failed: 401'')"
    by (simp add: js_def sublist_Cons_right)
  ultimately show ?thesis
    by (simp add: refusing_answer)
qed

section \<open>What reaches the gateway\<close>

lemma getAccessToken_sent:
  "\<exists>ts. sent (snd (getAccessToken p s)) = sent s @ ts \<and>
        (\<forall>q\<in>set ts. \<exists>f. req_body q = Some (FormBody f))"
proof (cases "token_valid s")
  case True
  then obtain t where "cachedToken s = Some t" "clock s < expiresAt t - 60000"
    by (auto simp: token_valid_iff)
  then have "getAccessToken p s = (Inr (access_token t), s)"
    by (rule getAccessToken_valid)
  then show ?thesis by simp
next
  case nv: False
  show ?thesis
  proof (cases "getCredentials (env p)")
    case (Inl e)
    with nv have "getAccessToken p s = (Inl e, s)"
      by (simp add: getAccessToken_def)
    then show ?thesis by simp
  next
    case (Inr c)
    have "sent (snd (getAccessToken p s)) =
            sent s @ [tokenRequest c (TATRAPAY_CONFIG (isSandbox c))]"
      by (simp add: getAccessToken_refresh [OF nv Inr] Let_def split: option.splits)
    then show ?thesis
      by (simp add: tokenRequest_def)
  qed
qed

lemma apiRequest_sent:
  "\<exists>ts. sent (snd (apiRequest p f m e b ip ru pm s)) = sent s @ ts \<and>
        (\<forall>q\<in>set ts. (\<exists>fb. req_body q = Some (FormBody fb)) \<or>
                     (req_method q = m \<and>
                      req_body q = (case b of None \<Rightarrow> None
                                    | Some x \<Rightarrow> if m = M_POST \<or> m = M_PUT
                                               then Some (JsonBody x) else None)))"
proof -
  obtain a s1 where g: "getAccessToken p s = (a, s1)"
    by (cases "getAccessToken p s")
  from getAccessToken_sent [of p s] g obtain ts where
    ts: "sent s1 = sent s @ ts" "\<forall>q\<in>set ts. \<exists>f. req_body q = Some (FormBody f)"
    by auto
  show ?thesis
  proof (cases a)
    case (Inl err)
    with g ts show ?thesis
      by (auto simp: apiRequest_def)
  next
    case (Inr token)
    show ?thesis
    proof (cases "getConfig (env p)")
      case (Inl err)
      with g Inr ts show ?thesis
        by (auto simp: apiRequest_def)
    next
      case cfg: (Inr config)
      from g Inr cfg ts show ?thesis
        by (auto simp: apiRequest_def Let_def split: option.splits)
    qed
  qed
qed

lemma apiRequest_Inr:
  assumes "apiRequest p f m e b ip ru pm s = (Inr d, s')"
  shows "\<exists>q. q \<in> set (requests_made s s') \<and> req_method q = m \<and>
             req_body q = (case b of None \<Rightarrow> None
                           | Some x \<Rightarrow> if m = M_POST \<or> m = M_PUT
                                      then Some (JsonBody x) else None)"
proof -
  obtain a s1 where g: "getAccessToken p s = (a, s1)"
    by (cases "getAccessToken p s")
  from getAccessToken_sent [of p s] g obtain ts where
    ts: "sent s1 = sent s @ ts"
    by auto
  from assms g ts show ?thesis
    by (auto simp: apiRequest_def Let_def requests_made_def
        split: sum.splits option.splits if_splits)
qed

lemma snd_createPayment:
  "snd (createPayment p request s) = snd (createPayment_response p request s)"
  by (cases "createPayment_response p request s")
     (auto simp: createPayment_def split: sum.splits option.splits)

lemma createPayment_sent:
  "\<forall>q\<in>set (requests_made s (snd (createPayment p request s))).
     \<forall>b. req_body q = Some (JsonBody b) \<longrightarrow> b = apiBody request"
proof -
  from apiRequest_sent [of p "paymentsEndpoint p" M_POST "js ''/v1/payments''"
      "Some (apiBody request)" "Some (customerIpAddress request)"
      "Some (takeWhile (\<lambda>c. c \<noteq> 0x3F) (returnUrl request))" "Some (paymentMethod request)" s]
  obtain ts where ts: "sent (snd (createPayment p request s)) = sent s @ ts"
    "\<forall>q\<in>set ts. (\<exists>fb. req_body q = Some (FormBody fb)) \<or>
       req_body q = Some (JsonBody (apiBody request))"
    by (auto simp: snd_createPayment createPayment_response_def)
  show ?thesis
  proof (intro ballI allI impI)
    fix q b
    assume "q \<in> set (requests_made s (snd (createPayment p request s)))"
      and b: "req_body q = Some (JsonBody b)"
    with ts(1) have "q \<in> set ts"
      by (simp add: requests_made_def)
    with ts(2) b show "b = apiBody request"
      by auto
  qed
qed

lemma createPayment_Inr:
  assumes "createPayment p request s = (Inr r, s')"
  shows "\<exists>response. createPayment_response p request s = (Inr response, s') \<and>
           \<not> (paymentMethod request = CARD_PAY \<and> \<not> truthy (tatraPayPlusUrl response)) \<and>
           r = \<lparr>paymentId = cd_paymentId response,
                status = js ''RCVD'',
                redirectUrl = tatraPayPlusUrl response,
                qrCodeData = None,
                bankTransferInfo =
                  (case bankTransferData response of
                     None \<Rightarrow> None
                   | Some d \<Rightarrow> Some \<lparr>bt_iban = iban d, bt_bic = bic d,
                                     bt_variableSymbol = variableSymbol d,
                                     bt_amount = binary64_quotient (amount (request_amount request)) 100,
                                     bt_currency = currency (request_amount request)\<rparr>),
                createdAt = ISOString (clock s'),
                response_expiresAt = None\<rparr>"
  using assms
  by (cases "createPayment_response p request s")
     (auto simp: createPayment_def split: sum.splits option.splits if_splits)

lemma createPayment_posted:
  assumes "createPayment p request s = (Inr r, s')"
  shows "\<exists>q\<in>set (requests_made s s'). req_method q = M_POST \<and>
           req_body q = Some (JsonBody (apiBody request))"
proof -
  from createPayment_Inr [OF assms] obtain response where
    "createPayment_response p request s = (Inr response, s')" by blast
  then show ?thesis
    using apiRequest_Inr [of p "paymentsEndpoint p" M_POST "js ''/v1/payments''"
      "Some (apiBody request)" "Some (customerIpAddress request)"
      "Some (takeWhile (\<lambda>c. c \<noteq> 0x3F) (returnUrl request))" "Some (paymentMethod request)" s
      response s']
    by (auto simp: createPayment_response_def)
qed


section \<open>The quotient of two numbers\<close>

lemma bit_length_bounds:
  "0 < n \<Longrightarrow> 2 ^ (bit_length n - 1) \<le> n \<and> n < 2 ^ bit_length n"
proof (induction n rule: bit_length.induct)
  case (1 n)
  show ?case
  proof (cases "n div 2 = 0")
    case True
    with "1.prems" have "n = 1" by (simp add: div_eq_0_iff) 
    then show ?thesis
      by (simp add: bit_length.simps)
  next
    case False
    then have pos: "0 < n div 2" by simp
    from "1.IH" "1.prems" pos
    have ih: "2 ^ (bit_length (n div 2) - 1) \<le> n div 2" "n div 2 < 2 ^ bit_length (n div 2)"
      by auto
    have bl: "bit_length n = Suc (bit_length (n div 2))"
      using "1.prems" by (subst bit_length.simps) simp
    have blpos: "0 < bit_length (n div 2)"
      using pos by (subst bit_length.simps) simp
    then obtain j where j: "bit_length (n div 2) = Suc j"
      by (cases "bit_length (n div 2)") auto
    from ih j have "2 * 2 ^ j \<le> 2 * (n div 2)" by simp
    also have "\<dots> \<le> n" by simp
    finally have lo: "2 ^ (bit_length n - 1) \<le> n"
      by (simp add: bl j)
    from ih(2) have "n div 2 + 1 \<le> 2 ^ bit_length (n div 2)" by simp
    then have "2 * (n div 2) + 2 \<le> 2 * 2 ^ bit_length (n div 2)" by simp
    moreover have "n < 2 * (n div 2) + 2" by presburger
    ultimately have "n < 2 ^ bit_length n"
      by (simp add: bl)
    with lo show ?thesis by simp
  qed
qed


lemma bit_length_pos: "0 < n \<Longrightarrow> 0 < bit_length n"
  by (subst bit_length.simps) simp

lemma binary64_exponent_bounds:
  assumes a: "0 < a" and d: "0 < d"
  shows "2 powi binary64_exponent a d \<le> (of_int a / of_int d :: rat)"
    and "(of_int a / of_int d :: rat) < 2 powi (binary64_exponent a d + 1)"
proof -
  define A where "A = nat a"
  define B where "B = nat d"
  have A: "0 < A" "of_int a = (of_nat A :: rat)" using a by (simp_all add: A_def)
  have B: "0 < B" "of_int d = (of_nat B :: rat)" using d by (simp_all add: B_def)
  obtain i where i: "bit_length A = Suc i"
    using bit_length_pos [OF A(1)] by (cases "bit_length A") auto
  obtain j where j: "bit_length B = Suc j"
    using bit_length_pos [OF B(1)] by (cases "bit_length B") auto
  from bit_length_bounds [OF A(1)] i have "2 ^ i \<le> A" "A < 2 ^ Suc i" by simp_all
  then have Ar: "(2::rat) ^ i \<le> of_nat A" "(of_nat A :: rat) < 2 ^ Suc i"
    by (metis of_nat_le_iff of_nat_numeral of_nat_power, metis of_nat_less_iff of_nat_numeral of_nat_power)
  from bit_length_bounds [OF B(1)] j have "2 ^ j \<le> B" "B < 2 ^ Suc j" by simp_all
  then have Br: "(2::rat) ^ j \<le> of_nat B" "(of_nat B :: rat) < 2 ^ Suc j"
    by (metis of_nat_le_iff of_nat_numeral of_nat_power, metis of_nat_less_iff of_nat_numeral of_nat_power)
  have Bpos: "(0::rat) < of_nat B" using B(1) by simp
  define k where "k = int (bit_length A) - int (bit_length B)"
  have k: "(2::rat) powi k = 2 ^ i / 2 ^ j"
    by (simp add: k_def i j power_int_diff)
  have e: "binary64_exponent a d = (if (2::rat) powi k \<le> of_nat A / of_nat B then k else k - 1)"
    by (simp add: binary64_exponent_def k_def A_def B_def Let_def a d less_imp_le)
  have up: "(of_nat A / of_nat B :: rat) < 2 powi (k + 1)"
  proof -
    have "(of_nat A / of_nat B :: rat) < 2 ^ Suc i / of_nat B"
      using Ar(2) Bpos by (simp add: divide_strict_right_mono)
    also have "\<dots> \<le> 2 ^ Suc i / 2 ^ j"
      using Br(1) by (simp add: frac_le)
    also have "\<dots> = 2 powi (k + 1)"
      by (simp add: power_int_add k)
    finally show ?thesis .
  qed
  have lo: "(2::rat) powi (k - 1) \<le> of_nat A / of_nat B"
  proof -
    have "(2::rat) powi (k - 1) = 2 ^ i / 2 ^ Suc j"
      by (simp add: power_int_diff k)
    also have "\<dots> \<le> of_nat A / 2 ^ Suc j"
      using Ar(1) by (simp add: divide_right_mono)
    also have "\<dots> \<le> of_nat A / of_nat B"
      using Br(2) Bpos by (simp add: frac_le)
    finally show ?thesis .
  qed
  show "2 powi binary64_exponent a d \<le> (of_int a / of_int d :: rat)"
    using lo by (simp add: e A(2) B(2))
  show "(of_int a / of_int d :: rat) < 2 powi (binary64_exponent a d + 1)"
    using up by (auto simp add: e A(2) B(2) not_le)
qed

lemma pow2_split: "(2::rat) ^ nat (- q) / 2 ^ nat q = 2 powi (- q)"
proof (cases "0 \<le> q")
  case True
  then show ?thesis
    by (simp add: power_int_minus power_int_def field_simps)
next
  case False
  then show ?thesis
    by (simp add: power_int_def)
qed

lemma nearest_integer:
  fixes num den :: int
  assumes "0 < den"
  defines "m0 \<equiv> num div den" and "r \<equiv> num mod den"
  defines "m \<equiv> (if 2 * r < den then m0 else if den < 2 * r then m0 + 1
                  else if even m0 then m0 else m0 + 1)"
  shows "\<bar>of_int m - (of_int num / of_int den :: rat)\<bar> \<le> 1 / 2"
proof -
  have r: "0 \<le> r" "r < den" using assms by (simp_all add: r_def)
  have "num = den * m0 + r" by (simp add: m0_def r_def)
  then have "(of_int num :: rat) = of_int den * of_int m0 + of_int r"
    by (metis of_int_add of_int_mult)
  then have q: "(of_int num / of_int den :: rat) = of_int m0 + of_int r / of_int den"
    using assms(1) by (simp add: field_simps)
  have dpos: "(0::rat) < of_int den" using assms(1) by simp
  have rr: "(0::rat) \<le> of_int r / of_int den" "(of_int r / of_int den :: rat) < 1"
    using r dpos by simp_all
  consider "2 * r < den" | "den < 2 * r" | "2 * r = den" by linarith
  then show ?thesis
  proof cases
    case 1
    then have "(2 * of_int r :: rat) < of_int den" by (metis of_int_less_iff of_int_mult of_int_numeral)
    then have "(of_int r / of_int den :: rat) < 1 / 2" using dpos by (simp add: field_simps)
    with 1 rr show ?thesis by (simp add: m_def q)
  next
    case 2
    then have "(of_int den :: rat) < 2 * of_int r" by (metis of_int_less_iff of_int_mult of_int_numeral)
    then have "1 / 2 < (of_int r / of_int den :: rat)" using dpos by (simp add: field_simps)
    with 2 rr show ?thesis by (simp add: m_def q)
  next
    case 3
    then have "(2 * of_int r :: rat) = of_int den" by (metis of_int_mult of_int_numeral)
    then have half: "(of_int r / of_int den :: rat) = 1 / 2" using dpos by (simp add: field_simps)
    have h: "(of_int num / of_int den :: rat) = of_int m0 + 1 / 2"
      by (simp only: q half)
    from 3 have "m = m0 \<or> m = m0 + 1"
      by (simp add: m_def)
    then show ?thesis
      by (auto simp: h)
  qed
qed

lemma neg_diff_abs: "\<bar>- a - (- x)\<bar> = \<bar>a - x\<bar>" for a x :: rat
  by linarith

lemma binary64_quotient_error:
  assumes d: "0 < d"
  shows "\<bar>binary64_quotient n d - of_int n / of_int d\<bar> \<le> \<bar>of_int n / of_int d\<bar> / 2 ^ 53"
proof (cases "n = 0")
  case True
  then show ?thesis by (simp add: binary64_quotient_def)
next
  case False
  then have a: "0 < \<bar>n\<bar>" by simp
  define e where "e = binary64_exponent \<bar>n\<bar> d"
  define q where "q = e - 52"
  define num where "num = \<bar>n\<bar> * 2 ^ nat (- q)"
  define den where "den = d * 2 ^ nat q"
  define m where "m = (if 2 * (num mod den) < den then num div den
                       else if den < 2 * (num mod den) then num div den + 1
                       else if even (num div den) then num div den else num div den + 1)"
  define x :: rat where "x = of_int \<bar>n\<bar> / of_int d"
  have den: "0 < den" using d by (simp add: den_def)
  have near: "\<bar>of_int m - (of_int num / of_int den :: rat)\<bar> \<le> 1 / 2"
    unfolding m_def by (rule nearest_integer [OF den])
  have y: "(of_int num / of_int den :: rat) = x * 2 powi (- q)"
    using pow2_split [of q] by (simp add: num_def den_def x_def field_simps)
  have s: "(0::rat) < 2 powi q" by simp
  have "\<bar>of_int m * 2 powi q - x\<bar> = \<bar>of_int m - x * 2 powi (- q)\<bar> * 2 powi q"
  proof -
    have "of_int m * 2 powi q - x = (of_int m - x * 2 powi (- q)) * 2 powi q"
      by (simp add: algebra_simps power_int_minus)
    then show ?thesis
      using s by (simp add: abs_mult)
  qed
  also have "\<dots> \<le> 1 / 2 * 2 powi q"
    using near s by (simp add: y mult_right_mono)
  also have "\<dots> = 2 powi e / 2 ^ 53"
    by (simp add: q_def power_int_diff)
  also have "\<dots> \<le> x / 2 ^ 53"
    using binary64_exponent_bounds(1) [OF a d] by (simp add: e_def x_def divide_right_mono)
  finally have main: "\<bar>of_int m * 2 powi q - x\<bar> \<le> x / 2 ^ 53" .
  have val: "binary64_quotient n d = (if n < 0 then - 1 else 1) * of_int m * 2 powi q"
    using False
    by (simp add: binary64_quotient_def Let_def m_def num_def den_def q_def e_def)
  have xabs: "x = \<bar>of_int n / of_int d\<bar>"
    using d by (simp add: x_def)
  show ?thesis
  proof (cases "n < 0")
    case True
    then have "of_int n / of_int d = - x"
      using d by (simp add: x_def)
    moreover have "\<bar>- (of_int m * 2 powi q) - (- x)\<bar> = \<bar>of_int m * 2 powi q - x\<bar>"
      by (rule neg_diff_abs)
    ultimately show ?thesis
      using main True by (simp add: val xabs [symmetric])
  next
    case nn: False
    then have "of_int n / of_int d = x"
      using d by (simp add: x_def)
    then show ?thesis
      using main nn by (simp add: val xabs [symmetric])
  qed
qed

text \<open>
  The rounded quotient is a number of the format: an integer of at most 53 bits, times the
  power of two that goes with the size of the quotient; and by \<open>binary64_quotient_error\<close>
  it lies within half of that power of two of the exact quotient.
\<close>

lemma binary64_quotient_significand:
  assumes d: "0 < d" and n: "n \<noteq> 0"
  shows "\<exists>m. binary64_quotient n d =
               (if n < 0 then - 1 else 1) * of_int m * 2 powi (binary64_exponent \<bar>n\<bar> d - 52) \<and>
             2 ^ 52 \<le> m \<and> m \<le> 2 ^ 53"
proof -
  from n have a: "0 < \<bar>n\<bar>" by simp
  define e where "e = binary64_exponent \<bar>n\<bar> d"
  define q where "q = e - 52"
  define num where "num = \<bar>n\<bar> * 2 ^ nat (- q)"
  define den where "den = d * 2 ^ nat q"
  define m where "m = (if 2 * (num mod den) < den then num div den
                       else if den < 2 * (num mod den) then num div den + 1
                       else if even (num div den) then num div den else num div den + 1)"
  define x :: rat where "x = of_int \<bar>n\<bar> / of_int d"
  have den: "0 < den" using d by (simp add: den_def)
  have y: "(of_int num / of_int den :: rat) = x * 2 powi (- q)"
    using pow2_split [of q] by (simp add: num_def den_def x_def field_simps)
  have x: "2 powi e \<le> x" "x < 2 powi (e + 1)"
    using binary64_exponent_bounds [OF a d] by (simp_all add: e_def x_def)
  have s: "(0::rat) < 2 powi (- q)" by simp
  have "(2::rat) ^ 52 = 2 powi e * 2 powi (- q)"
    by (simp add: q_def power_int_diff power_int_minus)
  also have "\<dots> \<le> x * 2 powi (- q)"
    using x(1) s by (simp add: mult_right_mono)
  finally have lo: "(2::rat) ^ 52 \<le> of_int num / of_int den"
    by (simp add: y)
  have "x * 2 powi (- q) < 2 powi (e + 1) * 2 powi (- q)"
    using x(2) s by (simp add: mult_strict_right_mono)
  also have "\<dots> = 2 ^ 53"
    by (simp add: q_def power_int_diff power_int_minus power_int_add)
  finally have hi: "(of_int num / of_int den :: rat) < 2 ^ 53"
    by (simp add: y)
  have dr: "(0::rat) < of_int den" using den by simp
  from lo dr have "(2::rat) ^ 52 * of_int den \<le> of_int num"
    by (simp add: pos_le_divide_eq)
  then have "(of_int (2 ^ 52 * den) :: rat) \<le> of_int num"
    by simp
  then have lo': "2 ^ 52 * den \<le> num"
    by (simp only: of_int_le_iff)
  from hi dr have "(of_int num :: rat) < 2 ^ 53 * of_int den"
    by (simp add: pos_divide_less_eq)
  then have "(of_int num :: rat) < of_int (2 ^ 53 * den)"
    by simp
  then have hi': "num < 2 ^ 53 * den"
    by (simp only: of_int_less_iff)
  have "(2 ^ 52 * den) div den \<le> num div den"
    using lo' den by (rule zdiv_mono1)
  then have m0lo: "2 ^ 52 \<le> num div den"
    using den by simp
  have "num = den * (num div den) + num mod den"
    by simp
  moreover have "0 \<le> num mod den"
    using den by simp
  ultimately have "den * (num div den) \<le> num"
    by linarith
  with hi' have "den * (num div den) < den * 2 ^ 53"
    by (simp add: mult.commute)
  then have m0hi: "num div den < 2 ^ 53"
    using den by (simp only: mult_less_cancel_left_pos)
  have "m = num div den \<or> m = num div den + 1"
    by (simp add: m_def)
  with m0lo m0hi have mb: "2 ^ 52 \<le> m \<and> m \<le> 2 ^ 53"
    by auto
  have val: "binary64_quotient n d = (if n < 0 then - 1 else 1) * of_int m * 2 powi q"
    using n
    by (simp add: binary64_quotient_def Let_def m_def num_def den_def q_def e_def)
  from val mb show ?thesis
    unfolding q_def e_def by blast
qed

subsection \<open>Some quotients\<close>

lemma quotient_10000: "binary64_quotient 10000 100 = 100"
  by (simp add: binary64_quotient_def binary64_exponent_def bit_length.simps Let_def)

lemma quotient_7950: "binary64_quotient 7950 100 = 159 / 2"
  by (simp add: binary64_quotient_def binary64_exponent_def bit_length.simps Let_def)

lemma quotient_1999: "binary64_quotient 1999 100 = 5626684784446013 / 2 ^ 48"
  by (simp add: binary64_quotient_def binary64_exponent_def bit_length.simps Let_def)

section \<open>Creating a payment\<close>

subsection \<open>The scenarios, run\<close>

lemma decimal_0: "decimal 0 = js ''0''"
  by (simp add: decimal.simps js_def)

lemma run_card:
  "createPayment gateway (payment_request CARD_PAY 7900) start =
     (Inr (payment_response (Some (js ''https://pay.example/go'')) None),
      \<lparr>clock = 1000200,
       cachedToken = Some \<lparr>access_token = js ''tok-1'', token_type = js ''Bearer'',
                            expires_in = 3600, scope = js ''TATRAPAYPLUS'', expiresAt = 4600120\<rparr>,
       sent = [tokenRequest shop_credentials (TATRAPAY_CONFIG True), posted_request CARD_PAY 7900],
       console_error = [], uuids = 1\<rparr>)"
  by (simp add: scenario_defs model_defs Let_def decimal_0 js_def)

lemma run_transfer:
  "fst (createPayment gateway (payment_request BANK_TRANSFER cents) start) =
     Inr (payment_response None (Some (transfer_info (binary64_quotient cents 100))))"
  by (simp add: scenario_defs model_defs Let_def)

lemma run_bare_transfer:
  "fst (createPayment bare_gateway (payment_request BANK_TRANSFER cents) start) =
     Inr (payment_response None None)"
  by (simp add: scenario_defs model_defs Let_def)

lemma run_bare_card:
  "fst (createPayment bare_gateway (payment_request CARD_PAY cents) start) =
     Inl (Error (js ''TatraPay: No redirect URL returned for card payment''))"
  by (simp add: scenario_defs model_defs Let_def)

lemma response_bare:
  "fst (createPayment_response bare_gateway (payment_request m cents) start) =
     Inr \<lparr>cd_paymentId = js ''pay-1'', tatraPayPlusUrl = None,
           bankTransferData = None, availablePaymentMethods = None\<rparr>"
  by (simp add: scenario_defs model_defs Let_def)

lemma response_transfer:
  "fst (createPayment_response gateway (payment_request BANK_TRANSFER cents) start) =
     Inr \<lparr>cd_paymentId = js ''pay-1'', tatraPayPlusUrl = None,
           bankTransferData = Some transfer_data, availablePaymentMethods = None\<rparr>"
  by (simp add: scenario_defs model_defs Let_def)

lemma made_card:
  "requests_made start (snd (createPayment gateway (payment_request CARD_PAY 7900) start)) =
     [tokenRequest shop_credentials (TATRAPAY_CONFIG True), posted_request CARD_PAY 7900]"
  unfolding requests_made_def run_card by (simp add: start_def)

subsection \<open>The response\<close>

text \<open>
  C1. A response that \<open>createPayment\<close> returns for \<open>CARD_PAY\<close> carries a redirect URL
  that is not empty; when the gateway's answer has none (or an empty one), \<open>createPayment\<close>
  fails with an error. For \<open>BANK_TRANSFER\<close> no such check is made: whatever the gateway
  answers, \<open>createPayment\<close> returns a response, which carries transfer instructions exactly
  when the answer contained \<open>bankTransferData\<close>.
\<close>

theorem createPayment_payload:
  "(createPayment p request s = (Inr r, s') \<and> paymentMethod request = CARD_PAY \<longrightarrow>
      (\<exists>url. redirectUrl r = Some url \<and> url \<noteq> [])) \<and>
   (createPayment_response p request s = (Inr response, s1) \<and>
    paymentMethod request = CARD_PAY \<and>
    (tatraPayPlusUrl response = None \<or> tatraPayPlusUrl response = Some []) \<longrightarrow>
      (\<exists>message. createPayment p request s = (Inl (Error message), s1))) \<and>
   (createPayment_response p request s = (Inr response, s1) \<and>
    paymentMethod request = BANK_TRANSFER \<longrightarrow>
      (\<exists>r. createPayment p request s = (Inr r, s1) \<and>
           (bankTransferInfo r = None \<longleftrightarrow> bankTransferData response = None)))"
proof (intro conjI impI)
  assume a: "createPayment p request s = (Inr r, s') \<and> paymentMethod request = CARD_PAY"
  obtain x s1 where "createPayment_response p request s = (x, s1)"
    by (cases "createPayment_response p request s")
  with a show "\<exists>url. redirectUrl r = Some url \<and> url \<noteq> []"
    by (auto simp: createPayment_def truthy_def split: sum.splits option.splits if_splits)
next
  assume "createPayment_response p request s = (Inr response, s1) \<and>
    paymentMethod request = CARD_PAY \<and>
    (tatraPayPlusUrl response = None \<or> tatraPayPlusUrl response = Some [])"
  then show "\<exists>message. createPayment p request s = (Inl (Error message), s1)"
    by (auto simp: createPayment_def truthy_def split: option.splits)
next
  assume "createPayment_response p request s = (Inr response, s1) \<and>
    paymentMethod request = BANK_TRANSFER"
  then show "\<exists>r. createPayment p request s = (Inr r, s1) \<and>
           (bankTransferInfo r = None \<longleftrightarrow> bankTransferData response = None)"
    by (simp add: createPayment_def split: option.splits)
qed

theorem createPayment_payload_witness:
  "createPayment gateway (payment_request CARD_PAY 7900) start =
     (Inr (payment_response (Some (js ''https://pay.example/go'')) None),
      snd (createPayment gateway (payment_request CARD_PAY 7900) start)) \<and>
   paymentMethod (payment_request CARD_PAY 7900) = CARD_PAY \<and>
   redirectUrl (payment_response (Some (js ''https://pay.example/go'')) None) =
     Some (js ''https://pay.example/go'') \<and>
   fst (createPayment_response bare_gateway (payment_request CARD_PAY 7900) start) =
     Inr \<lparr>cd_paymentId = js ''pay-1'', tatraPayPlusUrl = None,
           bankTransferData = None, availablePaymentMethods = None\<rparr> \<and>
   fst (createPayment bare_gateway (payment_request CARD_PAY 7900) start) =
     Inl (Error (js ''TatraPay: No redirect URL returned for card payment'')) \<and>
   paymentMethod (payment_request BANK_TRANSFER 10000) = BANK_TRANSFER \<and>
   fst (createPayment_response gateway (payment_request BANK_TRANSFER 10000) start) =
     Inr \<lparr>cd_paymentId = js ''pay-1'', tatraPayPlusUrl = None,
           bankTransferData = Some transfer_data, availablePaymentMethods = None\<rparr> \<and>
   fst (createPayment gateway (payment_request BANK_TRANSFER 10000) start) =
     Inr (payment_response None (Some (transfer_info 100)))"
proof -
  let ?bare = "\<lparr>cd_paymentId = js ''pay-1'', tatraPayPlusUrl = None,
                bankTransferData = None, availablePaymentMethods = None\<rparr>"
  let ?full = "\<lparr>cd_paymentId = js ''pay-1'', tatraPayPlusUrl = None,
                bankTransferData = Some transfer_data, availablePaymentMethods = None\<rparr>"
  have c: "createPayment gateway (payment_request CARD_PAY 7900) start =
     (Inr (payment_response (Some (js ''https://pay.example/go'')) None),
      snd (createPayment gateway (payment_request CARD_PAY 7900) start)) \<and>
     paymentMethod (payment_request CARD_PAY 7900) = CARD_PAY"
    unfolding run_card by (simp add: payment_request_def)
  have b: "createPayment_response bare_gateway (payment_request CARD_PAY 7900) start =
      (Inr ?bare, snd (createPayment_response bare_gateway (payment_request CARD_PAY 7900) start)) \<and>
     paymentMethod (payment_request CARD_PAY 7900) = CARD_PAY \<and>
     (tatraPayPlusUrl ?bare = None \<or> tatraPayPlusUrl ?bare = Some [])"
    using response_bare [of CARD_PAY 7900]
    by (simp add: prod_eq_iff payment_request_def)
  have t: "createPayment_response gateway (payment_request BANK_TRANSFER 10000) start =
      (Inr ?full, snd (createPayment_response gateway (payment_request BANK_TRANSFER 10000) start)) \<and>
     paymentMethod (payment_request BANK_TRANSFER 10000) = BANK_TRANSFER"
    using response_transfer [of 10000]
    by (simp add: prod_eq_iff payment_request_def)
  from createPayment_payload [of gateway "payment_request CARD_PAY 7900" start
      "payment_response (Some (js ''https://pay.example/go'')) None"
      "snd (createPayment gateway (payment_request CARD_PAY 7900) start)"] c
  have 1: "\<exists>url. redirectUrl (payment_response (Some (js ''https://pay.example/go'')) None) = Some url \<and>
            url \<noteq> []"
    by blast
  from createPayment_payload [of bare_gateway "payment_request CARD_PAY 7900" start _ _
      ?bare "snd (createPayment_response bare_gateway (payment_request CARD_PAY 7900) start)"] b
  have 2: "\<exists>message. createPayment bare_gateway (payment_request CARD_PAY 7900) start =
      (Inl (Error message),
       snd (createPayment_response bare_gateway (payment_request CARD_PAY 7900) start))"
    by blast
  from createPayment_payload [of gateway "payment_request BANK_TRANSFER 10000" start _ _
      ?full "snd (createPayment_response gateway (payment_request BANK_TRANSFER 10000) start)"] t
  have 3: "\<exists>r. createPayment gateway (payment_request BANK_TRANSFER 10000) start =
      (Inr r, snd (createPayment_response gateway (payment_request BANK_TRANSFER 10000) start)) \<and>
      (bankTransferInfo r = None \<longleftrightarrow> bankTransferData ?full = None)"
    by blast
  from 1 2 3 c t show ?thesis
    using run_bare_card [of 7900] run_transfer [of 10000]
      response_bare [of CARD_PAY 7900] response_transfer [of 10000]
    by (simp add: payment_response_def quotient_10000)
qed

text \<open>
  That a missing payload is an error for either method does not hold: a \<open>BANK_TRANSFER\<close>
  request answered with a payment id and nothing else is returned as a success, with neither
  transfer instructions nor a redirect URL.
\<close>

theorem createPayment_payload_counterexample:
  "paymentMethod (payment_request BANK_TRANSFER 10000) = BANK_TRANSFER \<and>
   fst (createPayment bare_gateway (payment_request BANK_TRANSFER 10000) start) =
     Inr \<lparr>paymentId = js ''pay-1'', status = js ''RCVD'', redirectUrl = None, qrCodeData = None,
           bankTransferInfo = None, createdAt = ISOString 1000200, response_expiresAt = None\<rparr>"
  using run_bare_transfer [of 10000]
  by (simp add: payment_request_def payment_response_def)

text \<open>
  C2. The amount in \<open>bankTransferInfo\<close> of a returned response is not in minor units: it
  is the amount of the request, which is in minor units, divided by 100 in binary64
  arithmetic, that is, the number nearest to the decimal amount in major units, within
  a relative error of \<open>2 ^ -53\<close> of it; the currency is the request's. The gateway reports
  no amount: its \<open>bankTransferData\<close> gives the IBAN, the BIC and the variable symbol, which
  are passed on.
\<close>

theorem createPayment_transfer_amount:
  "createPayment p request s = (Inr r, s') \<and> bankTransferInfo r = Some b \<longrightarrow>
     bt_amount b = binary64_quotient (amount (request_amount request)) 100 \<and>
     \<bar>bt_amount b - of_int (amount (request_amount request)) / 100\<bar> \<le>
       \<bar>of_int (amount (request_amount request)) / 100\<bar> / 2 ^ 53 \<and>
     bt_currency b = currency (request_amount request) \<and>
     (\<exists>response d. createPayment_response p request s = (Inr response, s') \<and>
        bankTransferData response = Some d \<and>
        bt_iban b = iban d \<and> bt_bic b = bic d \<and> bt_variableSymbol b = variableSymbol d)"
proof
  assume a: "createPayment p request s = (Inr r, s') \<and> bankTransferInfo r = Some b"
  then have "createPayment p request s = (Inr r, s')" by simp
  from createPayment_Inr [OF this] obtain response where
    r: "createPayment_response p request s = (Inr response, s')"
    and b: "bankTransferInfo r =
         (case bankTransferData response of
            None \<Rightarrow> None
          | Some d \<Rightarrow> Some \<lparr>bt_iban = iban d, bt_bic = bic d,
                            bt_variableSymbol = variableSymbol d,
                            bt_amount = binary64_quotient (amount (request_amount request)) 100,
                            bt_currency = currency (request_amount request)\<rparr>)"
    by fastforce
  from a b obtain d where d: "bankTransferData response = Some d"
    by (cases "bankTransferData response") auto
  with a b have q: "bt_amount b = binary64_quotient (amount (request_amount request)) 100"
    and c: "bt_currency b = currency (request_amount request)"
    and g: "bt_iban b = iban d \<and> bt_bic b = bic d \<and> bt_variableSymbol b = variableSymbol d"
    by auto
  have e: "\<bar>bt_amount b - of_int (amount (request_amount request)) / 100\<bar> \<le>
       \<bar>of_int (amount (request_amount request)) / 100\<bar> / 2 ^ 53"
    using binary64_quotient_error [of 100 "amount (request_amount request)"]
    by (simp add: q)
  from q e c g r d
  show "bt_amount b = binary64_quotient (amount (request_amount request)) 100 \<and>
     \<bar>bt_amount b - of_int (amount (request_amount request)) / 100\<bar> \<le>
       \<bar>of_int (amount (request_amount request)) / 100\<bar> / 2 ^ 53 \<and>
     bt_currency b = currency (request_amount request) \<and>
     (\<exists>response d. createPayment_response p request s = (Inr response, s') \<and>
        bankTransferData response = Some d \<and>
        bt_iban b = iban d \<and> bt_bic b = bic d \<and> bt_variableSymbol b = variableSymbol d)"
    by blast
qed

theorem createPayment_transfer_amount_witness:
  "createPayment gateway (payment_request BANK_TRANSFER 1999) start =
     (Inr (payment_response None (Some (transfer_info (5626684784446013 / 2 ^ 48)))),
      snd (createPayment gateway (payment_request BANK_TRANSFER 1999) start)) \<and>
   bankTransferInfo (payment_response None (Some (transfer_info (5626684784446013 / 2 ^ 48)))) =
     Some (transfer_info (5626684784446013 / 2 ^ 48)) \<and>
   amount (request_amount (payment_request BANK_TRANSFER 1999)) = 1999 \<and>
   bt_amount (transfer_info (5626684784446013 / 2 ^ 48)) = binary64_quotient 1999 100 \<and>
   \<bar>bt_amount (transfer_info (5626684784446013 / 2 ^ 48)) - 1999 / 100\<bar> \<le> \<bar>1999 / 100\<bar> / 2 ^ 53 \<and>
   bt_amount (transfer_info (5626684784446013 / 2 ^ 48)) \<noteq> 1999 / 100 \<and>
   bt_currency (transfer_info (5626684784446013 / 2 ^ 48)) = EUR"
proof -
  let ?b = "transfer_info (5626684784446013 / 2 ^ 48)"
  have h: "createPayment gateway (payment_request BANK_TRANSFER 1999) start =
     (Inr (payment_response None (Some ?b)),
      snd (createPayment gateway (payment_request BANK_TRANSFER 1999) start)) \<and>
     bankTransferInfo (payment_response None (Some ?b)) = Some ?b"
    using run_transfer [of 1999]
    by (simp add: prod_eq_iff payment_response_def quotient_1999)
  have c: "amount (request_amount (payment_request BANK_TRANSFER 1999)) = 1999"
    "currency (request_amount (payment_request BANK_TRANSFER 1999)) = EUR"
    by (simp_all add: payment_request_def)
  from createPayment_transfer_amount [of gateway "payment_request BANK_TRANSFER 1999" start
      "payment_response None (Some ?b)"
      "snd (createPayment gateway (payment_request BANK_TRANSFER 1999) start)" ?b] h
  have "bt_amount ?b = binary64_quotient (amount (request_amount (payment_request BANK_TRANSFER 1999))) 100 \<and>
        \<bar>bt_amount ?b - of_int (amount (request_amount (payment_request BANK_TRANSFER 1999))) / 100\<bar> \<le>
          \<bar>of_int (amount (request_amount (payment_request BANK_TRANSFER 1999))) / 100\<bar> / 2 ^ 53 \<and>
        bt_currency ?b = currency (request_amount (payment_request BANK_TRANSFER 1999))"
    by blast
  then have t: "bt_amount ?b = binary64_quotient 1999 100 \<and>
        \<bar>bt_amount ?b - 1999 / 100\<bar> \<le> \<bar>1999 / 100\<bar> / 2 ^ 53 \<and> bt_currency ?b = EUR"
    unfolding c of_int_numeral .
  have n: "bt_amount ?b \<noteq> 1999 / 100"
    by (simp add: transfer_info_def)
  from h c t n show ?thesis
    by blast
qed

text \<open>
  That the amount reported is in integer minor units does not hold: for a bank transfer of
  7950 cents, \<open>bankTransferInfo.amount\<close> is 79.5.
\<close>

theorem createPayment_transfer_amount_counterexample:
  "amount (request_amount (payment_request BANK_TRANSFER 7950)) = 7950 \<and>
   fst (createPayment gateway (payment_request BANK_TRANSFER 7950) start) =
     Inr \<lparr>paymentId = js ''pay-1'', status = js ''RCVD'', redirectUrl = None, qrCodeData = None,
           bankTransferInfo = Some
             \<lparr>bt_iban = js ''SK3111000000001234567890'', bt_bic = js ''TATRSKBX'',
              bt_variableSymbol = js ''1234567890'', bt_amount = 159 / 2, bt_currency = EUR\<rparr>,
           createdAt = ISOString 1000200, response_expiresAt = None\<rparr>"
  using run_transfer [of 7950]
  by (simp add: payment_request_def payment_response_def transfer_info_def quotient_7950)

text \<open>
  C10. In every response that \<open>createPayment\<close> returns, \<open>status\<close> is the constant
  \<open>RCVD\<close> and \<open>createdAt\<close> is the time string of the process's own clock, read when the
  response is built; neither comes from the gateway's answer, whatever it contains.
\<close>

theorem createPayment_initial_status:
  "createPayment p request s = (Inr r, s') \<longrightarrow>
     status r = js ''RCVD'' \<and> createdAt r = ISOString (clock s')"
  using createPayment_Inr [of p request s r s'] by auto

theorem createPayment_initial_status_witness:
  "createPayment gateway (payment_request CARD_PAY 7900) start =
     (Inr (payment_response (Some (js ''https://pay.example/go'')) None),
      snd (createPayment gateway (payment_request CARD_PAY 7900) start)) \<and>
   status (payment_response (Some (js ''https://pay.example/go'')) None) = js ''RCVD'' \<and>
   createdAt (payment_response (Some (js ''https://pay.example/go'')) None) = ISOString 1000200 \<and>
   clock (snd (createPayment gateway (payment_request CARD_PAY 7900) start)) = 1000200"
proof -
  have h: "createPayment gateway (payment_request CARD_PAY 7900) start =
     (Inr (payment_response (Some (js ''https://pay.example/go'')) None),
      snd (createPayment gateway (payment_request CARD_PAY 7900) start))"
    unfolding run_card by simp
  from createPayment_initial_status [of gateway "payment_request CARD_PAY 7900" start
      "payment_response (Some (js ''https://pay.example/go'')) None"
      "snd (createPayment gateway (payment_request CARD_PAY 7900) start)"] h
  have "status (payment_response (Some (js ''https://pay.example/go'')) None) = js ''RCVD'' \<and>
        createdAt (payment_response (Some (js ''https://pay.example/go'')) None) =
          ISOString (clock (snd (createPayment gateway (payment_request CARD_PAY 7900) start)))"
    by blast
  with h show ?thesis
    unfolding run_card by simp
qed

subsection \<open>The request\<close>

text \<open>
  C8. In every request with a JSON body that \<open>createPayment\<close> hands to \<open>fetch\<close>, the
  \<open>merchantReference\<close> is the caller's with every whitespace code unit removed; when
  \<open>createPayment\<close> returns a response, such a request has been posted. The reference
  \<open>ORDER 123 A\<close> goes out as \<open>ORDER123A\<close>.
\<close>

theorem merchantReference_transmitted:
  "(\<forall>q\<in>set (requests_made s (snd (createPayment p request s))).
      \<forall>b. req_body q = Some (JsonBody b) \<longrightarrow>
        api_merchantReference b = filter (\<lambda>c. \<not> isWhiteSpace c) (merchantReference request)) \<and>
   (createPayment p request s = (Inr r, s') \<longrightarrow>
      (\<exists>q\<in>set (requests_made s s'). \<exists>b. req_method q = M_POST \<and> req_body q = Some (JsonBody b))) \<and>
   api_merchantReference (apiBody (request\<lparr>merchantReference := js ''ORDER 123 A''\<rparr>)) =
     js ''ORDER123A''"
proof (intro conjI impI)
  show "\<forall>q\<in>set (requests_made s (snd (createPayment p request s))).
      \<forall>b. req_body q = Some (JsonBody b) \<longrightarrow>
        api_merchantReference b = filter (\<lambda>c. \<not> isWhiteSpace c) (merchantReference request)"
    using createPayment_sent [of s p request] by (auto simp: apiBody_def)
next
  assume "createPayment p request s = (Inr r, s')"
  then show "\<exists>q\<in>set (requests_made s s'). \<exists>b. req_method q = M_POST \<and> req_body q = Some (JsonBody b)"
    using createPayment_posted [of p request s r s'] by auto
next
  show "api_merchantReference (apiBody (request\<lparr>merchantReference := js ''ORDER 123 A''\<rparr>)) =
     js ''ORDER123A''"
    by (simp add: apiBody_def isWhiteSpace_def js_def)
qed

theorem merchantReference_transmitted_witness:
  "merchantReference (payment_request CARD_PAY 7900) = js ''ORDER 123 A'' \<and>
   posted_request CARD_PAY 7900 \<in>
     set (requests_made start (snd (createPayment gateway (payment_request CARD_PAY 7900) start))) \<and>
   req_method (posted_request CARD_PAY 7900) = M_POST \<and>
   (\<exists>b. req_body (posted_request CARD_PAY 7900) = Some (JsonBody b) \<and>
        api_merchantReference b = js ''ORDER123A'' \<and>
        api_merchantReference b =
          filter (\<lambda>c. \<not> isWhiteSpace c) (merchantReference (payment_request CARD_PAY 7900)))"
proof -
  have q: "posted_request CARD_PAY 7900 \<in>
     set (requests_made start (snd (createPayment gateway (payment_request CARD_PAY 7900) start)))"
    by (simp add: made_card)
  obtain b where b: "req_body (posted_request CARD_PAY 7900) = Some (JsonBody b)"
    "api_merchantReference b = js ''ORDER123A''"
    by (simp add: posted_request_def)
  from merchantReference_transmitted [of start gateway "payment_request CARD_PAY 7900"] q b(1)
  have "api_merchantReference b =
          filter (\<lambda>c. \<not> isWhiteSpace c) (merchantReference (payment_request CARD_PAY 7900))"
    by blast
  with q b show ?thesis
    by (simp add: payment_request_def posted_request_def)
qed

lemma sanitizedCardHolder_props:
  "sanitizedCardHolder request \<noteq> [] \<and> length (sanitizedCardHolder request) \<le> 45 \<and>
   (\<forall>c\<in>set (sanitizedCardHolder request). isCardHolderChar c)"
proof -
  have c: "\<forall>c\<in>set (js ''Customer''). isCardHolderChar c"
    by (simp add: js_def isCardHolderChar_def)
  have l: "length (js ''Customer'') \<le> 45"
    by (simp add: js_def)
  from c l show ?thesis
    by (auto simp: sanitizedCardHolder_def or_else_def substring0_def dest: in_set_takeD)
qed

lemma sanitizedCardHolder_eq:
  "sanitizedCardHolder request =
     (case customer request of
        None \<Rightarrow> js ''Customer''
      | Some c \<Rightarrow>
          (let kept = filter isCardHolderChar (take 45 (trim (firstName c @ js '' '' @ lastName c)))
           in if kept = [] then js ''Customer'' else kept))"
proof (cases "customer request")
  case None
  have "filter isCardHolderChar (js ''Customer'') = js ''Customer''"
    by (simp add: js_def isCardHolderChar_def)
  with None show ?thesis
    by (simp add: sanitizedCardHolder_def customerFullName_def or_else_def substring0_def js_def)
next
  case (Some c)
  have "length (filter isCardHolderChar (take 45 (trim (firstName c @ js '' '' @ lastName c)))) \<le> 45"
    by (rule order_trans [OF length_filter_le]) simp
  with Some show ?thesis
    by (simp add: sanitizedCardHolder_def customerFullName_def or_else_def substring0_def Let_def)
qed

lemma isCardHolderChar_iff:
  "isCardHolderChar c \<longleftrightarrow>
     c \<in> set (js ''abcdefghijklmnopqrstuvwxyzABCDEFGHIJKLMNOPQRSTUVWXYZ0123456789 .@_-'')"
proof
  assume "c \<in> set (js ''abcdefghijklmnopqrstuvwxyzABCDEFGHIJKLMNOPQRSTUVWXYZ0123456789 .@_-'')"
  then show "isCardHolderChar c"
    by (auto simp: js_def isCardHolderChar_def)
next
  assume "isCardHolderChar c"
  then have "unat c \<in> {97..<123} \<union> {65..<91} \<union> {48..<58} \<union> {32, 46, 64, 95, 45}"
    by (auto simp: isCardHolderChar_def word_le_nat_alt)
  also have "\<dots> = set ([97..<123] @ [65..<91] @ [48..<58] @ [32, 46, 64, 95, 45])"
    by (simp only: set_append set_upt list.set Un_assoc)
  finally have "of_nat (unat c) \<in> (of_nat ` set ([97..<123] @ [65..<91] @ [48..<58] @ [32, 46, 64, 95, 45]) :: 16 word set)"
    by (rule imageI)
  then have "c \<in> set (map of_nat ([97..<123] @ [65..<91] @ [48..<58] @ [32, 46, 64, 95, 45]))"
    by (simp only: set_map of_nat_unat ucast_id)
  also have "map of_nat ([97..<123] @ [65..<91] @ [48..<58] @ [32, 46, 64, 95, 45]) =
     js ''abcdefghijklmnopqrstuvwxyzABCDEFGHIJKLMNOPQRSTUVWXYZ0123456789 .@_-''"
    by (simp add: js_def upt_rec_numeral)
  finally show "c \<in> set (js ''abcdefghijklmnopqrstuvwxyzABCDEFGHIJKLMNOPQRSTUVWXYZ0123456789 .@_-'')" .
qed

lemma isCardHolderChar_eq:
  "isCardHolderChar =
     (\<lambda>c. c \<in> set (js ''abcdefghijklmnopqrstuvwxyzABCDEFGHIJKLMNOPQRSTUVWXYZ0123456789 .@_-''))"
  by (rule ext) (rule isCardHolderChar_iff)

text \<open>
  C4. In every request with a JSON body that \<open>createPayment\<close> hands to \<open>fetch\<close> for a
  \<open>CARD_PAY\<close> payment, \<open>cardDetail.cardHolder\<close> is not empty, has at most 45 code units,
  all of them in \<open>[a-zA-Z0-9 .@_-]\<close>, and is this: the customer's first and last name
  joined by a space, trimmed, cut to 45 code units and then stripped of every code unit
  outside that class, or \<open>Customer\<close> when nothing is left or no customer is given. For
  the customer with the first name J, a-acute, n and the last name C-caron, i, e, r, n, y
  and two exclamation marks it is \<open>Jn ierny\<close>; for a name that loses every code unit it is
  \<open>Customer\<close>.
\<close>

theorem cardHolder_transmitted:
  "(paymentMethod request = CARD_PAY \<longrightarrow>
      (\<forall>q\<in>set (requests_made s (snd (createPayment p request s))).
         \<forall>b. req_body q = Some (JsonBody b) \<longrightarrow>
           (\<exists>h. cardDetail b = Some \<lparr>cardHolder = h\<rparr> \<and> h \<noteq> [] \<and> length h \<le> 45 \<and>
                set h \<subseteq> set (js ''abcdefghijklmnopqrstuvwxyzABCDEFGHIJKLMNOPQRSTUVWXYZ0123456789 .@_-'') \<and>
                h = (case customer request of
                       None \<Rightarrow> js ''Customer''
                     | Some c \<Rightarrow>
                         (let kept = filter
                                (\<lambda>x. x \<in> set (js ''abcdefghijklmnopqrstuvwxyzABCDEFGHIJKLMNOPQRSTUVWXYZ0123456789 .@_-''))
                                (take 45 (trim (firstName c @ js '' '' @ lastName c)))
                          in if kept = [] then js ''Customer'' else kept))))) \<and>
   cardDetail (apiBody (request\<lparr>paymentMethod := CARD_PAY,
       customer := Some \<lparr>firstName = [0x4A, 0xE1, 0x6E],
                         lastName = [0x10C, 0x69, 0x65, 0x72, 0x6E, 0x79, 0x21, 0x21],
                         email = e, phone = ph, address = ad\<rparr>\<rparr>)) =
     Some \<lparr>cardHolder = js ''Jn ierny''\<rparr> \<and>
   cardDetail (apiBody (request\<lparr>paymentMethod := CARD_PAY,
       customer := Some \<lparr>firstName = [0xE1, 0x10C, 0x21], lastName = [],
                         email = e, phone = ph, address = ad\<rparr>\<rparr>)) =
     Some \<lparr>cardHolder = js ''Customer''\<rparr>"
proof (intro conjI impI ballI allI)
  fix q b
  assume m: "paymentMethod request = CARD_PAY"
    and "q \<in> set (requests_made s (snd (createPayment p request s)))"
    and "req_body q = Some (JsonBody b)"
  then have "b = apiBody request"
    using createPayment_sent [of s p request] by blast
  with m have cd: "cardDetail b = Some \<lparr>cardHolder = sanitizedCardHolder request\<rparr>"
    by (simp add: apiBody_def)
  from sanitizedCardHolder_props [of request]
  have "sanitizedCardHolder request \<noteq> []" "length (sanitizedCardHolder request) \<le> 45"
    "set (sanitizedCardHolder request) \<subseteq>
       set (js ''abcdefghijklmnopqrstuvwxyzABCDEFGHIJKLMNOPQRSTUVWXYZ0123456789 .@_-'')"
    by (auto simp: isCardHolderChar_iff)
  with cd sanitizedCardHolder_eq [of request]
  show "\<exists>h. cardDetail b = Some \<lparr>cardHolder = h\<rparr> \<and> h \<noteq> [] \<and> length h \<le> 45 \<and>
                set h \<subseteq> set (js ''abcdefghijklmnopqrstuvwxyzABCDEFGHIJKLMNOPQRSTUVWXYZ0123456789 .@_-'') \<and>
                h = (case customer request of
                       None \<Rightarrow> js ''Customer''
                     | Some c \<Rightarrow>
                         (let kept = filter
                                (\<lambda>x. x \<in> set (js ''abcdefghijklmnopqrstuvwxyzABCDEFGHIJKLMNOPQRSTUVWXYZ0123456789 .@_-''))
                                (take 45 (trim (firstName c @ js '' '' @ lastName c)))
                          in if kept = [] then js ''Customer'' else kept))"
    unfolding isCardHolderChar_eq by blast
next
  show "cardDetail (apiBody (request\<lparr>paymentMethod := CARD_PAY,
       customer := Some \<lparr>firstName = [0x4A, 0xE1, 0x6E],
                         lastName = [0x10C, 0x69, 0x65, 0x72, 0x6E, 0x79, 0x21, 0x21],
                         email = e, phone = ph, address = ad\<rparr>\<rparr>)) =
     Some \<lparr>cardHolder = js ''Jn ierny''\<rparr>"
    by (simp add: apiBody_def sanitizedCardHolder_def customerFullName_def or_else_def
        substring0_def trim_def isWhiteSpace_def isCardHolderChar_def js_def)
next
  show "cardDetail (apiBody (request\<lparr>paymentMethod := CARD_PAY,
       customer := Some \<lparr>firstName = [0xE1, 0x10C, 0x21], lastName = [],
                         email = e, phone = ph, address = ad\<rparr>\<rparr>)) =
     Some \<lparr>cardHolder = js ''Customer''\<rparr>"
    by (simp add: apiBody_def sanitizedCardHolder_def customerFullName_def or_else_def
        substring0_def trim_def isWhiteSpace_def isCardHolderChar_def js_def)
qed

theorem cardHolder_transmitted_witness:
  "paymentMethod (payment_request CARD_PAY 7900) = CARD_PAY \<and>
   posted_request CARD_PAY 7900 \<in>
     set (requests_made start (snd (createPayment gateway (payment_request CARD_PAY 7900) start))) \<and>
   (\<exists>b. req_body (posted_request CARD_PAY 7900) = Some (JsonBody b) \<and>
        cardDetail b = Some \<lparr>cardHolder = js ''Jn ierny''\<rparr>) \<and>
   length (js ''Jn ierny'') \<le> 45 \<and>
   set (js ''Jn ierny'') \<subseteq>
     set (js ''abcdefghijklmnopqrstuvwxyzABCDEFGHIJKLMNOPQRSTUVWXYZ0123456789 .@_-'')"
proof -
  have m: "paymentMethod (payment_request CARD_PAY 7900) = CARD_PAY"
    by (simp add: payment_request_def)
  have q: "posted_request CARD_PAY 7900 \<in>
     set (requests_made start (snd (createPayment gateway (payment_request CARD_PAY 7900) start)))"
    by (simp add: made_card)
  obtain b where b: "req_body (posted_request CARD_PAY 7900) = Some (JsonBody b)"
    "cardDetail b = Some \<lparr>cardHolder = js ''Jn ierny''\<rparr>"
    by (simp add: posted_request_def)
  from cardHolder_transmitted [of "payment_request CARD_PAY 7900" start gateway] m q b(1)
  obtain h where "cardDetail b = Some \<lparr>cardHolder = h\<rparr>" "length h \<le> 45"
    "set h \<subseteq> set (js ''abcdefghijklmnopqrstuvwxyzABCDEFGHIJKLMNOPQRSTUVWXYZ0123456789 .@_-'')"
    by blast
  with m q b show ?thesis
    by auto
qed

text \<open>
  The cut to 45 code units comes before the strip. A full name of 49 code units whose
  first is outside the class keeps 44 of them, not 45.
\<close>

lemma cardHolder_cut_before_strip:
  "sanitizedCardHolder (request\<lparr>customer := Some \<lparr>firstName = 0xE1 # replicate 46 0x61,
       lastName = js ''b'', email = e, phone = ph, address = ad\<rparr>\<rparr>) = replicate 44 0x61"
  by (simp add: sanitizedCardHolder_def customerFullName_def or_else_def
        substring0_def trim_def isWhiteSpace_def isCardHolderChar_def js_def)

section \<open>The callback\<close>





text \<open>
  C9. When the query of the callback request has no \<open>orderId\<close>, the handler redirects to
  the \<open>error\<close> page with the message \<open>Missing order ID\<close> and the state of the process is
  what it was: no token request and no status request has been handed to \<open>fetch\<close>.
\<close>

theorem callback_missing_orderId:
  "map_of (searchParams request) (js ''orderId'') = None \<longrightarrow>
     GET p request s =
       (\<lparr>redirect_base = (case NEXT_PUBLIC_BASE_URL (env p) of
                            None \<Rightarrow> js ''http://localhost:3000''
                          | Some u \<Rightarrow> if u = [] then js ''http://localhost:3000'' else u),
         redirect_page = page_error,
         redirect_params = [(js ''message'', js ''Missing order ID'')]\<rparr>, s)"
  by (simp add: GET_def redirectToResult_def or_else_def Let_def)

theorem callback_missing_orderId_witness:
  "map_of (searchParams \<lparr>searchParams = [(js ''paymentId'', js ''pay-1'')]\<rparr>) (js ''orderId'') = None \<and>
   GET gateway \<lparr>searchParams = [(js ''paymentId'', js ''pay-1'')]\<rparr> start =
     (\<lparr>redirect_base = js ''https://shop.example'', redirect_page = page_error,
       redirect_params = [(js ''message'', js ''Missing order ID'')]\<rparr>, start) \<and>
   sent start = []"
proof -
  have h: "map_of (searchParams \<lparr>searchParams = [(js ''paymentId'', js ''pay-1'')]\<rparr>) (js ''orderId'') = None"
    by (simp add: js_def)
  from callback_missing_orderId [of "\<lparr>searchParams = [(js ''paymentId'', js ''pay-1'')]\<rparr>"
      gateway start] h
  have "GET gateway \<lparr>searchParams = [(js ''paymentId'', js ''pay-1'')]\<rparr> start =
       (\<lparr>redirect_base = (case NEXT_PUBLIC_BASE_URL (env gateway) of
                            None \<Rightarrow> js ''http://localhost:3000''
                          | Some u \<Rightarrow> if u = [] then js ''http://localhost:3000'' else u),
         redirect_page = page_error,
         redirect_params = [(js ''message'', js ''Missing order ID'')]\<rparr>, start)"
    by simp
  with h show ?thesis
    by (simp add: gateway_def example_env_def start_def)
qed

end
